theory Spec2Isabelle
  imports Complex_Main "HOL-Library.Word" "HOL-Library.Finite_Map"
begin

section \<open>JavaScript values\<close>

text \<open>
  A JavaScript string is a sequence of UTF-16 code units; \<open>length\<close>, \<open>startsWith\<close>,
  \<open>includes\<close>, \<open>slice\<close>, \<open>split\<close> and \<open>trim\<close> all work on code units. ASCII
  literals of the source are written \<open>ascii ''...''\<close>; the Japanese literals are given by
  their code units.
\<close>

type_synonym jsstring = "16 word list"

definition ascii :: "string \<Rightarrow> jsstring" where
  "ascii s = map of_char s"

text \<open>\<open>s.startsWith(p)\<close>\<close>

definition startsWith :: "jsstring \<Rightarrow> jsstring \<Rightarrow> bool" where
  "startsWith s p = (take (length p) s = p)"

text \<open>\<open>s.includes(p)\<close>: \<open>p\<close> occurs at some position of \<open>s\<close>.\<close>

fun includes_js :: "jsstring \<Rightarrow> jsstring \<Rightarrow> bool" where
  "includes_js [] p = (p = [])"
| "includes_js (c # cs) p = (startsWith (c # cs) p \<or> includes_js cs p)"

text \<open>\<open>s.split(sep)\<close> for a separator of one code unit; the result is never empty.\<close>

fun split :: "jsstring \<Rightarrow> 16 word \<Rightarrow> jsstring list" where
  "split [] sep = [[]]"
| "split (c # cs) sep =
     (if c = sep then [] # split cs sep
      else (case split cs sep of
              [] \<Rightarrow> [[c]]
            | l # ls \<Rightarrow> (c # l) # ls))"

text \<open>
  \<open>s.trim()\<close> removes the code units of WhiteSpace and LineTerminator (ECMAScript) from
  both ends.
\<close>

definition isWhiteSpace :: "16 word \<Rightarrow> bool" where
  "isWhiteSpace c =
     (c = 0x0009 \<or> c = 0x000A \<or> c = 0x000B \<or> c = 0x000C \<or> c = 0x000D \<or> c = 0x0020
      \<or> c = 0x00A0 \<or> c = 0x1680 \<or> (0x2000 \<le> c \<and> c \<le> 0x200A) \<or> c = 0x2028
      \<or> c = 0x2029 \<or> c = 0x202F \<or> c = 0x205F \<or> c = 0x3000 \<or> c = 0xFEFF)"

definition trim :: "jsstring \<Rightarrow> jsstring" where
  "trim s = rev (dropWhile isWhiteSpace (rev (dropWhile isWhiteSpace s)))"

text \<open>
  The values that settings objects and extension storage hold. An object is a finite
  map from property names to values (the order of its keys plays no part below). Numbers
  are the finite ones, as rationals; \<open>NaN\<close> and the infinities do not survive storage.
\<close>

datatype jsval =
    JUndefined
  | JNull
  | JBool bool
  | JNum rat
  | JStr jsstring
  | JArr "jsval list"
  | JObj "(jsstring, jsval) fmap"

text \<open>Truthiness, as \<open>!v\<close>, \<open>v || d\<close> and \<open>if (v)\<close> test it.\<close>

fun truthy :: "jsval \<Rightarrow> bool" where
  "truthy JUndefined = False"
| "truthy JNull = False"
| "truthy (JBool b) = b"
| "truthy (JNum n) = (n \<noteq> 0)"
| "truthy (JStr s) = (s \<noteq> [])"
| "truthy (JArr xs) = True"
| "truthy (JObj kvs) = True"

text \<open>\<open>v || d\<close>\<close>

definition orElse :: "jsval \<Rightarrow> jsval \<Rightarrow> jsval" where
  "orElse v d = (if truthy v then v else d)"


text \<open>
  \<open>obj[k]\<close>: reading a property that the object lacks gives \<open>undefined\<close>, as does
  reading one that holds \<open>undefined\<close>.
\<close>

definition get_prop :: "(jsstring, jsval) fmap \<Rightarrow> jsstring \<Rightarrow> jsval" where
  "get_prop obj k = (case fmlookup obj k of None \<Rightarrow> JUndefined | Some v \<Rightarrow> v)"

text \<open>The decimal name of an array index, as object keys spell it.\<close>

fun decimal :: "nat \<Rightarrow> jsstring" where
  "decimal n =
     (if n < 10 then [of_nat (48 + n)]
      else decimal (n div 10) @ [of_nat (48 + n mod 10)])"

text \<open>
  The own enumerable properties that an object spread \<open>{...v}\<close> copies: those of an
  object, the indexed elements of an array, the indexed code units of a string, and
  nothing for \<open>undefined\<close>, \<open>null\<close>, booleans and numbers.
\<close>

fun ownProperties :: "jsval \<Rightarrow> (jsstring, jsval) fmap" where
  "ownProperties (JObj obj) = obj"
| "ownProperties (JArr xs) = fmap_of_list (zip (map decimal [0..<length xs]) xs)"
| "ownProperties (JStr s) =
     fmap_of_list (zip (map decimal [0..<length s]) (map (\<lambda>c. JStr [c]) s))"
| "ownProperties v = fmempty"

section \<open>shared/constants\<close>

definition GEMINI_API_URL :: jsstring where
  "GEMINI_API_URL = ascii ''https://generativelanguage.googleapis.com''"

record GenerationConfig =
  temperature :: rat
  topP :: rat
  topK :: nat
  maxOutputTokens :: nat

definition DEFAULT_GENERATION_CONFIG :: GenerationConfig where
  "DEFAULT_GENERATION_CONFIG =
     \<lparr>temperature = 7 / 10, topP = 95 / 100, topK = 40, maxOutputTokens = 8192\<rparr>"

record SafetySetting =
  category :: jsstring
  threshold :: jsstring

definition DEFAULT_SAFETY_SETTINGS :: "SafetySetting list" where
  "DEFAULT_SAFETY_SETTINGS =
     [\<lparr>category = ascii ''HARM_CATEGORY_HARASSMENT'', threshold = ascii ''BLOCK_ONLY_HIGH''\<rparr>,
      \<lparr>category = ascii ''HARM_CATEGORY_HATE_SPEECH'', threshold = ascii ''BLOCK_ONLY_HIGH''\<rparr>,
      \<lparr>category = ascii ''HARM_CATEGORY_SEXUALLY_EXPLICIT'',
         threshold = ascii ''BLOCK_ONLY_HIGH''\<rparr>,
      \<lparr>category = ascii ''HARM_CATEGORY_DANGEROUS_CONTENT'',
         threshold = ascii ''BLOCK_ONLY_HIGH''\<rparr>]"

text \<open>
  \<open>ERROR_MESSAGES\<close>: six Japanese sentences, by their UTF-16 code units. The first reads
  "the API key is not set ...", the second "the API key is invalid ...", the third
  "a network error occurred ...", the fourth "an API error occurred ...", the fifth
  "the rate limit was reached ...", the sixth "an unexpected error occurred."
\<close>

definition NO_API_KEY :: jsstring where
  "NO_API_KEY =
     [0x0041, 0x0050, 0x0049, 0x30AD, 0x30FC, 0x304C, 0x8A2D, 0x5B9A, 0x3055, 0x308C,
      0x3066, 0x3044, 0x307E, 0x305B, 0x3093, 0x3002, 0x8A2D, 0x5B9A, 0x753B, 0x9762,
      0x3067, 0x0041, 0x0050, 0x0049, 0x30AD, 0x30FC, 0x3092, 0x5165, 0x529B, 0x3057,
      0x3066, 0x304F, 0x3060, 0x3055, 0x3044, 0x3002]"

definition INVALID_API_KEY :: jsstring where
  "INVALID_API_KEY =
     [0x0041, 0x0050, 0x0049, 0x30AD, 0x30FC, 0x304C, 0x7121, 0x52B9, 0x3067, 0x3059,
      0x3002, 0x6B63, 0x3057, 0x3044, 0x0041, 0x0050, 0x0049, 0x30AD, 0x30FC, 0x3092,
      0x5165, 0x529B, 0x3057, 0x3066, 0x304F, 0x3060, 0x3055, 0x3044, 0x3002]"

definition NETWORK_ERROR :: jsstring where
  "NETWORK_ERROR =
     [0x30CD, 0x30C3, 0x30C8, 0x30EF, 0x30FC, 0x30AF, 0x30A8, 0x30E9, 0x30FC, 0x304C,
      0x767A, 0x751F, 0x3057, 0x307E, 0x3057, 0x305F, 0x3002, 0x30A4, 0x30F3, 0x30BF,
      0x30FC, 0x30CD, 0x30C3, 0x30C8, 0x63A5, 0x7D9A, 0x3092, 0x78BA, 0x8A8D, 0x3057,
      0x3066, 0x304F, 0x3060, 0x3055, 0x3044, 0x3002]"

definition API_ERROR :: jsstring where
  "API_ERROR =
     [0x0041, 0x0050, 0x0049, 0x30A8, 0x30E9, 0x30FC, 0x304C, 0x767A, 0x751F, 0x3057,
      0x307E, 0x3057, 0x305F, 0x3002, 0x3057, 0x3070, 0x3089, 0x304F, 0x5F85, 0x3063,
      0x3066, 0x304B, 0x3089, 0x518D, 0x8A66, 0x884C, 0x3057, 0x3066, 0x304F, 0x3060,
      0x3055, 0x3044, 0x3002]"

definition RATE_LIMIT :: jsstring where
  "RATE_LIMIT =
     [0x30EC, 0x30FC, 0x30C8, 0x5236, 0x9650, 0x306B, 0x9054, 0x3057, 0x307E, 0x3057,
      0x305F, 0x3002, 0x3057, 0x3070, 0x3089, 0x304F, 0x5F85, 0x3063, 0x3066, 0x304B,
      0x3089, 0x518D, 0x8A66, 0x884C, 0x3057, 0x3066, 0x304F, 0x3060, 0x3055, 0x3044,
      0x3002]"

definition UNKNOWN_ERROR :: jsstring where
  "UNKNOWN_ERROR =
     [0x4E88, 0x671F, 0x3057, 0x306A, 0x3044, 0x30A8, 0x30E9, 0x30FC, 0x304C, 0x767A,
      0x751F, 0x3057, 0x307E, 0x3057, 0x305F, 0x3002]"

section \<open>shared/utils: the API key validator\<close>

text \<open>
  \<^verbatim>\<open>
  export function validateApiKeyFormat(apiKey) {
      if (!apiKey || typeof apiKey !== 'string') { return false; }
      return apiKey.startsWith('AIza') && apiKey.length >= 35;
  }
  \<close>
\<close>

fun validateApiKeyFormat :: "jsval \<Rightarrow> bool" where
  "validateApiKeyFormat (JStr apiKey) =
     (if \<not> truthy (JStr apiKey) then False
      else startsWith apiKey (ascii ''AIza'') \<and> length apiKey \<ge> 35)"
| "validateApiKeyFormat v = False"

section \<open>lib/browser-compat: extension storage\<close>

text \<open>
  \<open>compat.storage.local\<close> wraps the host's storage area, a map from keys to values, in
  promises. \<open>get(keys)\<close> resolves to the entries stored under the given keys and
  \<open>set(items)\<close> stores every entry of \<open>items\<close>, leaving all other keys as they are. A
  failure of the host rejects the promise and reaches the caller of the functions below
  unchanged; the definitions give the resolved case.
\<close>

type_synonym storage_area = "(jsstring, jsval) fmap"

definition storage_local_get :: "jsstring list \<Rightarrow> storage_area \<Rightarrow> (jsstring, jsval) fmap" where
  "storage_local_get keys store = fmrestrict_set (set keys) store"

definition storage_local_set :: "(jsstring, jsval) fmap \<Rightarrow> storage_area \<Rightarrow> storage_area" where
  "storage_local_set items store = store ++\<^sub>f items"

section \<open>lib/storage\<close>

definition STORAGE_KEYS_API_KEY :: jsstring where
  "STORAGE_KEYS_API_KEY = ascii ''apiKey''"

definition STORAGE_KEYS_MODEL :: jsstring where
  "STORAGE_KEYS_MODEL = ascii ''model''"

definition STORAGE_KEYS_SYSTEM_PROMPT :: jsstring where
  "STORAGE_KEYS_SYSTEM_PROMPT = ascii ''systemPrompt''"

definition STORAGE_KEYS_SETTINGS :: jsstring where
  "STORAGE_KEYS_SETTINGS = ascii ''settings''"

text \<open>
  \<^verbatim>\<open>
  async getSettings() {
      const result = await compat.storage.local.get([API_KEY, MODEL, SYSTEM_PROMPT, SETTINGS]);
      return {
          apiKey: result[API_KEY] || '',
          model: result[MODEL] || 'gemini-2.5-flash',
          systemPrompt: result[SYSTEM_PROMPT] || '',
          ...result[SETTINGS]
      };
  }
  \<close>
  The object literal sets the three typed properties first and then copies the own
  properties of the stored blob over them.
\<close>

definition getSettings :: "storage_area \<Rightarrow> (jsstring, jsval) fmap" where
  "getSettings store =
     (let result = storage_local_get
            [STORAGE_KEYS_API_KEY, STORAGE_KEYS_MODEL, STORAGE_KEYS_SYSTEM_PROMPT,
             STORAGE_KEYS_SETTINGS] store
      in fmupd (ascii ''systemPrompt'')
           (orElse (get_prop result STORAGE_KEYS_SYSTEM_PROMPT) (JStr []))
        (fmupd (ascii ''model'')
           (orElse (get_prop result STORAGE_KEYS_MODEL) (JStr (ascii ''gemini-2.5-flash'')))
        (fmupd (ascii ''apiKey'')
           (orElse (get_prop result STORAGE_KEYS_API_KEY) (JStr []))
         fmempty))
        ++\<^sub>f ownProperties (get_prop result STORAGE_KEYS_SETTINGS))"

text \<open>
  \<^verbatim>\<open>
  async saveSettings(settings) {
      const { apiKey, model, systemPrompt, ...otherSettings } = settings;
      const toSave = {};
      if (apiKey !== undefined) toSave[API_KEY] = apiKey;
      if (model !== undefined) toSave[MODEL] = model;
      if (systemPrompt !== undefined) toSave[SYSTEM_PROMPT] = systemPrompt;
      if (Object.keys(otherSettings).length > 0) { toSave[SETTINGS] = otherSettings; }
      await compat.storage.local.set(toSave);
  }
  \<close>
  \<open>otherSettings\<close> is the rest of the destructuring pattern: every property of
  \<open>settings\<close> but the three named ones.
\<close>

definition otherSettings :: "(jsstring, jsval) fmap \<Rightarrow> (jsstring, jsval) fmap" where
  "otherSettings settings =
     fmdrop (ascii ''apiKey'') (fmdrop (ascii ''model'') (fmdrop (ascii ''systemPrompt'') settings))"

definition toSave :: "(jsstring, jsval) fmap \<Rightarrow> (jsstring, jsval) fmap" where
  "toSave settings =
     (let apiKey = get_prop settings (ascii ''apiKey'');
          model = get_prop settings (ascii ''model'');
          systemPrompt = get_prop settings (ascii ''systemPrompt'');
          s0 = fmempty;
          s1 = (if apiKey \<noteq> JUndefined then fmupd STORAGE_KEYS_API_KEY apiKey s0 else s0);
          s2 = (if model \<noteq> JUndefined then fmupd STORAGE_KEYS_MODEL model s1 else s1);
          s3 = (if systemPrompt \<noteq> JUndefined
                then fmupd STORAGE_KEYS_SYSTEM_PROMPT systemPrompt s2 else s2)
      in if otherSettings settings \<noteq> fmempty
         then fmupd STORAGE_KEYS_SETTINGS (JObj (otherSettings settings)) s3
         else s3)"

definition saveSettings :: "(jsstring, jsval) fmap \<Rightarrow> storage_area \<Rightarrow> storage_area" where
  "saveSettings settings store = storage_local_set (toSave settings) store"

section \<open>lib/gemini-api\<close>

datatype chat_role = User | Assistant | Model

record ChatMessage =
  role :: chat_role
  content :: jsstring

record GeminiPart =
  part_text :: jsstring

datatype gemini_role = GUser | GModel

record GeminiContent =
  g_role :: gemini_role
  parts :: "GeminiPart list"

text \<open>An optional field is \<open>None\<close> when it is missing.\<close>

record CandidateContent =
  c_parts :: "GeminiPart list option"

record GeminiCandidate =
  c_content :: "CandidateContent option"
  finishReason :: "jsstring option"

text \<open>
  The \<open>message\<close> of an error body is kept as the JSON value it is, \<open>JUndefined\<close> when the
  property is missing: \<open>handleApiError\<close> tests it, calls a method of it and makes an
  error of it, and a value that is not a string answers each of these in its own way.
\<close>

record ErrorBody =
  message :: jsval

record GeminiResponse =
  candidates :: "GeminiCandidate list option"
  error :: "ErrorBody option"

text \<open>
  What is thrown: an \<open>Error\<close> or a \<open>TypeError\<close> with its message, or an error of
  another class (\<open>SyntaxError\<close>, \<open>DOMException\<close>, ...).
\<close>

datatype js_error = Error jsstring | TypeError jsstring | OtherError jsstring

text \<open>
  The JavaScript engine. It raises a \<open>TypeError\<close> when a property of \<open>null\<close> is read
  (the fault names the expression read from and the property) and when a value that is
  not a function is called (the fault names the expression called); the message of that
  error is the engine's own wording. \<open>toString\<close> is the conversion of a value to a
  string that \<open>new Error(v)\<close> applies to its argument; it throws for some objects.
\<close>

datatype fault = PropertyOfNull jsstring jsstring | NotAFunction jsstring

record host =
  typeErrorText :: "fault \<Rightarrow> jsstring"
  toString :: "jsval \<Rightarrow> js_error + jsstring"

text \<open>
  The request that \<open>fetch\<close> is given, and the response it resolves to. The body of a
  response is read in two ways: \<open>json()\<close> resolves to the parsed body or rejects, and
  \<open>body.getReader()\<close> gives a reader whose \<open>read()\<close> delivers byte chunks until it
  reports \<open>done\<close> or rejects; \<open>body\<close> may be \<open>null\<close>. A stream is taken to end: it is
  the list of its chunks, with the error of the rejection if it ends by one.

  The parsed body is \<open>None\<close> when it is the JSON value \<open>null\<close>, the one value whose
  properties cannot be read. Any other value is given by the properties that are read
  of it: a number, a string, a boolean or an array has neither \<open>candidates\<close> nor \<open>error\<close>
  and is the record without them, and an \<open>error\<close> that is not an object has no
  \<open>message\<close>.
\<close>

record RequestBody =
  contents :: "GeminiContent list"
  generationConfig :: GenerationConfig
  safetySettings :: "SafetySetting list"

record Request =
  url :: jsstring
  http_method :: jsstring
  headers :: "(jsstring \<times> jsstring) list"
  request_body :: RequestBody

record BodyStream =
  reads :: "8 word list list"
  failure :: "js_error option"

record Response =
  status :: nat
  json :: "js_error + GeminiResponse option"
  body :: "BodyStream option"

text \<open>\<open>response.ok\<close>: the status is in the range 200 to 299.\<close>

definition ok :: "Response \<Rightarrow> bool" where
  "ok response = (200 \<le> status response \<and> status response \<le> 299)"

record GeminiClient =
  apiKey :: jsstring
  model :: jsstring

text \<open>\<open>constructor(apiKey, model = 'gemini-1.5-flash')\<close>\<close>

definition new_GeminiClient :: "jsstring \<Rightarrow> jsstring option \<Rightarrow> GeminiClient" where
  "new_GeminiClient k m =
     \<lparr>apiKey = k, model = (case m of None \<Rightarrow> ascii ''gemini-1.5-flash'' | Some m' \<Rightarrow> m')\<rparr>"

text \<open>
  \<^verbatim>\<open>
  private formatMessages(messages) {
      return messages.map(msg => ({
          role: msg.role === 'user' ? 'user' : 'model',
          parts: [{ text: msg.content }]
      }));
  }
  \<close>
\<close>

definition formatMessages :: "ChatMessage list \<Rightarrow> GeminiContent list" where
  "formatMessages messages =
     map (\<lambda>msg. \<lparr>g_role = (if role msg = User then GUser else GModel),
                 parts = [\<lparr>part_text = content msg\<rparr>]\<rparr>) messages"

text \<open>\<open>data.candidates?.[0]\<close> and \<open>data.candidates?.[0]?.content?.parts?.[0]?.text\<close>\<close>

definition firstCandidate :: "GeminiResponse \<Rightarrow> GeminiCandidate option" where
  "firstCandidate data =
     (case candidates data of
        None \<Rightarrow> None
      | Some [] \<Rightarrow> None
      | Some (c # cs) \<Rightarrow> Some c)"

definition firstText :: "GeminiResponse \<Rightarrow> jsstring option" where
  "firstText data =
     (case firstCandidate data of
        None \<Rightarrow> None
      | Some c \<Rightarrow>
          (case c_content c of
             None \<Rightarrow> None
           | Some ct \<Rightarrow>
               (case c_parts ct of
                  None \<Rightarrow> None
                | Some [] \<Rightarrow> None
                | Some (p # ps) \<Rightarrow> Some (part_text p))))"

text \<open>
  \<^verbatim>\<open>
  private async handleApiError(response) {
      let errorData;
      try { errorData = await response.json(); }
      catch { errorData = { error: { message: 'Unknown error' } }; }
      const message = errorData.error?.message || '';
      if (response.status === 400 && message.includes('API key')) throw new Error(INVALID_API_KEY);
      if (response.status === 429) throw new Error(RATE_LIMIT);
      if (response.status >= 500) throw new Error(API_ERROR);
      throw new Error(message || UNKNOWN_ERROR);
  }
  \<close>
  The function always throws; the model returns what it throws. Reading \<open>errorData.error\<close>
  throws a \<open>TypeError\<close> when the body parsed to \<open>null\<close>, before any test of the status.
\<close>

text \<open>\<open>errorData.error?.message\<close>\<close>

definition errorMessage :: "GeminiResponse \<Rightarrow> jsval" where
  "errorMessage errorData =
     (case error errorData of None \<Rightarrow> JUndefined | Some e \<Rightarrow> message e)"

text \<open>
  \<open>message.includes(s)\<close> for a \<open>message\<close> that is neither \<open>undefined\<close> nor \<open>null\<close>, as
  the result of \<open>... || ''\<close> is: the substring test of a string, the element test of an
  array (an element is the string \<open>s\<close>), and a call of something that is not a function
  for a boolean, a number or an object.
\<close>

definition message_includes :: "host \<Rightarrow> jsval \<Rightarrow> jsstring \<Rightarrow> js_error + bool" where
  "message_includes host v s =
     (case v of
        JStr m \<Rightarrow> Inr (includes_js m s)
      | JArr xs \<Rightarrow> Inr (JStr s \<in> set xs)
      | _ \<Rightarrow> Inl (TypeError (typeErrorText host (NotAFunction (ascii ''message.includes'')))))"

text \<open>
  \<open>throw new Error(v)\<close> for a \<open>v\<close> that is not \<open>undefined\<close>: the message is \<open>v\<close>
  converted to a string, and a conversion that throws is what is thrown.
\<close>

definition new_Error :: "host \<Rightarrow> jsval \<Rightarrow> js_error" where
  "new_Error host v =
     (case v of
        JStr m \<Rightarrow> Error m
      | _ \<Rightarrow> (case toString host v of Inl e \<Rightarrow> e | Inr m \<Rightarrow> Error m))"

definition handleApiError :: "host \<Rightarrow> Response \<Rightarrow> js_error" where
  "handleApiError host response =
     (case (case json response of
              Inl e \<Rightarrow> Some \<lparr>candidates = None,
                               error = Some \<lparr>message = JStr (ascii ''Unknown error'')\<rparr>\<rparr>
            | Inr d \<Rightarrow> d) of
        None \<Rightarrow>
          TypeError (typeErrorText host (PropertyOfNull (ascii ''errorData'') (ascii ''error'')))
      | Some errorData \<Rightarrow>
          (let message = orElse (errorMessage errorData) (JStr []);
               otherwise =
                 (if status response = 429 then Error RATE_LIMIT
                  else if status response \<ge> 500 then Error API_ERROR
                  else new_Error host (orElse message (JStr UNKNOWN_ERROR)))
           in if status response = 400
              then (case message_includes host message (ascii ''API key'') of
                      Inl e \<Rightarrow> e
                    | Inr b \<Rightarrow> if b then Error INVALID_API_KEY else otherwise)
              else otherwise))"

text \<open>
  The \<open>catch\<close> block of \<open>chat\<close> and \<open>streamChat\<close>:
  \<^verbatim>\<open>
  catch (error) {
      if (error instanceof TypeError && error.message.includes('fetch'))
          throw new Error(ERROR_MESSAGES.NETWORK_ERROR);
      throw error;
  }
  \<close>
\<close>

fun rethrow :: "js_error \<Rightarrow> js_error" where
  "rethrow (TypeError m) =
     (if includes_js m (ascii ''fetch'') then Error NETWORK_ERROR else TypeError m)"
| "rethrow e = e"

definition requestFor :: "jsstring \<Rightarrow> ChatMessage list \<Rightarrow> Request" where
  "requestFor u messages =
     \<lparr>url = u, http_method = ascii ''POST'',
      headers = [(ascii ''Content-Type'', ascii ''application/json'')],
      request_body =
        \<lparr>contents = formatMessages messages,
         generationConfig = DEFAULT_GENERATION_CONFIG,
         safetySettings = DEFAULT_SAFETY_SETTINGS\<rparr>\<rparr>"

definition chatUrl :: "GeminiClient \<Rightarrow> jsstring" where
  "chatUrl c =
     GEMINI_API_URL @ ascii ''/v1beta/models/'' @ model c @ ascii '':generateContent?key=''
       @ apiKey c"

definition streamUrl :: "GeminiClient \<Rightarrow> jsstring" where
  "streamUrl c =
     GEMINI_API_URL @ ascii ''/v1beta/models/'' @ model c
       @ ascii '':streamGenerateContent?key='' @ apiKey c @ ascii ''&alt=sse''"

text \<open>The fixed reply to a response blocked for safety ("sorry, I cannot answer this ...").\<close>

definition SAFETY_REPLY :: jsstring where
  "SAFETY_REPLY =
     [0x7533, 0x3057, 0x8A33, 0x3042, 0x308A, 0x307E, 0x305B, 0x3093, 0x304C, 0x3001,
      0x3053, 0x306E, 0x8CEA, 0x554F, 0x306B, 0x306F, 0x304A, 0x7B54, 0x3048, 0x3067,
      0x304D, 0x307E, 0x305B, 0x3093, 0x3002, 0x5225, 0x306E, 0x8CEA, 0x554F, 0x3092,
      0x304A, 0x8A66, 0x3057, 0x304F, 0x3060, 0x3055, 0x3044, 0x3002]"

text \<open>
  \<open>chat(messages)\<close>. The network is the function \<open>fetch\<close>, from the request to what the
  promise settles to (\<open>Inl\<close> when it rejects). The result pairs the requests issued, in
  order, with what the call returns (\<open>Inr\<close>) or throws (\<open>Inl\<close>). The error thrown for a
  missing key is thrown before the \<open>try\<close>, and the rejection of
  \<open>return this.handleApiError(response)\<close> is not awaited inside it, so neither passes
  through the \<open>catch\<close> block. When the body of a 2xx response parses to \<open>null\<close>, the
  read of \<open>data.candidates\<close> throws the engine's \<open>TypeError\<close> inside the \<open>try\<close>.
\<close>

definition chat ::
  "host \<Rightarrow> GeminiClient \<Rightarrow> (Request \<Rightarrow> js_error + Response) \<Rightarrow> ChatMessage list
     \<Rightarrow> Request list \<times> (js_error + jsstring)" where
  "chat host c fetch messages =
     (if apiKey c = [] then ([], Inl (Error NO_API_KEY))
      else
        (let req = requestFor (chatUrl c) messages in
         case fetch req of
           Inl e \<Rightarrow> ([req], Inl (rethrow e))
         | Inr response \<Rightarrow>
             if \<not> ok response then ([req], Inl (handleApiError host response))
             else
               (case json response of
                  Inl e \<Rightarrow> ([req], Inl (rethrow e))
                | Inr None \<Rightarrow>
                    ([req], Inl (rethrow (TypeError (typeErrorText host
                       (PropertyOfNull (ascii ''data'') (ascii ''candidates''))))))
                | Inr (Some data) \<Rightarrow>
                    if (case firstCandidate data of
                          None \<Rightarrow> False
                        | Some c0 \<Rightarrow> finishReason c0 = Some (ascii ''SAFETY''))
                    then ([req], Inr SAFETY_REPLY)
                    else
                      (case firstText data of
                         None \<Rightarrow> ([req], Inl (rethrow (Error API_ERROR)))
                       | Some t \<Rightarrow>
                           if t = [] then ([req], Inl (rethrow (Error API_ERROR)))
                           else ([req], Inr t)))))"

text \<open>
  The body of the \<open>for\<close> loop of \<open>streamChat\<close>, over the lines of one decoded chunk:
  \<^verbatim>\<open>
  for (const line of lines) {
      if (line.startsWith('data: ')) {
          try {
              const data = JSON.parse(line.slice(6));
              const text = data.candidates?.[0]?.content?.parts?.[0]?.text || '';
              fullText += text;
              if (onChunk) onChunk(text);
          } catch { /* Skip invalid JSON lines */ }
      }
  }
  \<close>
  \<open>parse\<close> is \<open>JSON.parse\<close> read at the type \<open>GeminiResponse\<close>; it gives \<open>None\<close> when
  the \<open>try\<close> block throws before \<open>fullText\<close> is extended. The state is \<open>fullText\<close> and
  the arguments \<open>onChunk\<close> has been called with so far; \<open>onChunk\<close> tells whether the
  caller gave a sink. A sink that throws is caught by the same \<open>catch\<close>, after
  \<open>fullText\<close> was extended, and the loop goes on.
\<close>

definition orEmpty :: "jsstring option \<Rightarrow> jsstring" where
  "orEmpty t = (case t of None \<Rightarrow> [] | Some s \<Rightarrow> if s \<noteq> [] then s else [])"

fun processLines ::
  "(jsstring \<Rightarrow> GeminiResponse option) \<Rightarrow> bool \<Rightarrow> jsstring list
     \<Rightarrow> jsstring \<times> jsstring list \<Rightarrow> jsstring \<times> jsstring list" where
  "processLines parse onChunk [] acc = acc"
| "processLines parse onChunk (line # lines) (fullText, delivered) =
     (if startsWith line (ascii ''data: '') then
        (case parse (drop 6 line) of
           None \<Rightarrow> processLines parse onChunk lines (fullText, delivered)
         | Some data \<Rightarrow>
             (let t = orEmpty (firstText data) in
              processLines parse onChunk lines
                (fullText @ t, if onChunk then delivered @ [t] else delivered)))
      else processLines parse onChunk lines (fullText, delivered))"

text \<open>
  The \<open>while\<close> loop, over the chunks the reader delivers before \<open>done\<close>:
  \<^verbatim>\<open>
  const decoder = new TextDecoder();
  let fullText = '';
  while (true) {
      const { done, value } = await reader.read();
      if (done) break;
      const chunk = decoder.decode(value);
      const lines = chunk.split('\n');
      for (const line of lines) { ... }
  }
  \<close>
  \<open>decoder.decode(value)\<close> is called without \<open>{ stream: true }\<close>, so the decoder is
  flushed and reset by every call: the text of a chunk is a function \<open>decode\<close> of the
  bytes of that chunk alone.
\<close>

fun readLoop ::
  "(8 word list \<Rightarrow> jsstring) \<Rightarrow> (jsstring \<Rightarrow> GeminiResponse option) \<Rightarrow> bool
     \<Rightarrow> 8 word list list \<Rightarrow> jsstring \<times> jsstring list \<Rightarrow> jsstring \<times> jsstring list" where
  "readLoop decode parse onChunk [] acc = acc"
| "readLoop decode parse onChunk (bytes # rest) acc =
     readLoop decode parse onChunk rest
       (processLines parse onChunk (split (decode bytes) 0x0A) acc)"

text \<open>
  \<open>streamChat(messages, onChunk?)\<close>. The result gives the requests issued, the
  arguments of the calls of \<open>onChunk\<close> in order, and what the call returns or throws.
\<close>

definition streamChat ::
  "host \<Rightarrow> GeminiClient \<Rightarrow> (Request \<Rightarrow> js_error + Response) \<Rightarrow> (8 word list \<Rightarrow> jsstring)
     \<Rightarrow> (jsstring \<Rightarrow> GeminiResponse option) \<Rightarrow> ChatMessage list \<Rightarrow> bool
     \<Rightarrow> Request list \<times> jsstring list \<times> (js_error + jsstring)" where
  "streamChat host c fetch decode parse messages onChunk =
     (if apiKey c = [] then ([], [], Inl (Error NO_API_KEY))
      else
        (let req = requestFor (streamUrl c) messages in
         case fetch req of
           Inl e \<Rightarrow> ([req], [], Inl (rethrow e))
         | Inr response \<Rightarrow>
             if \<not> ok response then ([req], [], Inl (handleApiError host response))
             else
               (case body response of
                  None \<Rightarrow> ([req], [], Inl (rethrow (Error API_ERROR)))
                | Some reader \<Rightarrow>
                    (let (fullText, delivered) =
                           readLoop decode parse onChunk (reads reader) ([], [])
                     in case failure reader of
                          Some e \<Rightarrow> ([req], delivered, Inl (rethrow e))
                        | None \<Rightarrow> ([req], delivered, Inr fullText)))))"

section \<open>sidepanel: the chat session\<close>

text \<open>
  The fields of \<open>ChatApp\<close> and the part of the page its methods write: the value of the
  input box, the character count, whether the send button is disabled, whether the
  welcome message is hidden, and the message elements of the container in order. An
  element has an identity (the placeholder of a streamed reply is updated, finalised or
  removed later), so each one carries a number. Times, scrolling, focus, the markdown
  rendering and the copy buttons are left out.
\<close>

datatype ui_class = UserMessage | AssistantMessage | StreamingMessage | ErrorMessage

record ui_message =
  element :: nat
  className :: ui_class
  shown :: jsstring

record ChatApp =
  messages :: "ChatMessage list"
  gemini :: "GeminiClient option"
  isLoading :: bool
  systemPrompt :: jsstring
  userInput :: jsstring
  charCount :: nat
  sendDisabled :: bool
  welcomeHidden :: bool
  container :: "ui_message list"
  nextElement :: nat

text \<open>What \<open>storage.getSettings()\<close> resolves to, at its declared type.\<close>

record StorageSettings =
  settings_apiKey :: jsstring
  settings_model :: jsstring
  settings_systemPrompt :: jsstring

definition handleInputChange :: "ChatApp \<Rightarrow> ChatApp" where
  "handleInputChange a =
     a\<lparr>charCount := length (userInput a),
       sendDisabled := (length (userInput a) = 0 \<or> isLoading a)\<rparr>"

definition setLoading :: "bool \<Rightarrow> ChatApp \<Rightarrow> ChatApp" where
  "setLoading loading a =
     a\<lparr>isLoading := loading, sendDisabled := (loading \<or> trim (userInput a) = [])\<rparr>"

definition appendElement :: "ui_class \<Rightarrow> jsstring \<Rightarrow> ChatApp \<Rightarrow> ChatApp" where
  "appendElement cls t a =
     a\<lparr>container := container a @ [\<lparr>element = nextElement a, className = cls, shown = t\<rparr>],
       nextElement := Suc (nextElement a)\<rparr>"

definition addMessage :: "chat_role \<Rightarrow> jsstring \<Rightarrow> ChatApp \<Rightarrow> ChatApp" where
  "addMessage r t a = appendElement (if r = Assistant then AssistantMessage else UserMessage) t a"

definition showError :: "jsstring \<Rightarrow> ChatApp \<Rightarrow> ChatApp" where
  "showError m a = appendElement ErrorMessage m a"

text \<open>\<open>createStreamingMessage()\<close> returns the new element.\<close>

definition createStreamingMessage :: "ChatApp \<Rightarrow> nat \<times> ChatApp" where
  "createStreamingMessage a = (nextElement a, appendElement StreamingMessage [] a)"

definition updateStreamingMessage :: "nat \<Rightarrow> jsstring \<Rightarrow> ChatApp \<Rightarrow> ChatApp" where
  "updateStreamingMessage d t a =
     a\<lparr>container := map (\<lambda>m. if element m = d then m\<lparr>shown := t\<rparr> else m) (container a)\<rparr>"

definition finalizeStreamingMessage :: "nat \<Rightarrow> jsstring \<Rightarrow> ChatApp \<Rightarrow> ChatApp" where
  "finalizeStreamingMessage d t a =
     a\<lparr>container :=
         map (\<lambda>m. if element m = d then m\<lparr>className := AssistantMessage, shown := t\<rparr> else m)
           (container a)\<rparr>"

definition removeElement :: "nat \<Rightarrow> ChatApp \<Rightarrow> ChatApp" where
  "removeElement d a = a\<lparr>container := filter (\<lambda>m. element m \<noteq> d) (container a)\<rparr>"

definition hideWelcomeMessage :: "ChatApp \<Rightarrow> ChatApp" where
  "hideWelcomeMessage a = a\<lparr>welcomeHidden := True\<rparr>"

text \<open>
  The two literals of the system prompt pair: the prefix \<open>[...] \<close> ("system instruction")
  and the acknowledgement ("understood.").
\<close>

definition SYSTEM_PREFIX :: jsstring where
  "SYSTEM_PREFIX = [0x005B, 0x30B7, 0x30B9, 0x30C6, 0x30E0, 0x6307, 0x793A, 0x005D, 0x0020]"

definition ACKNOWLEDGEMENT :: jsstring where
  "ACKNOWLEDGEMENT = [0x4E86, 0x89E3, 0x3057, 0x307E, 0x3057, 0x305F, 0x3002]"

text \<open>
  \<open>handleSend\<close> is an \<open>async\<close> method: it runs until an \<open>await\<close>, where it is suspended
  and other event handlers of the page may run, and it is resumed when the awaited
  promise settles. It has two such points, \<open>await storage.getSettings()\<close> (reached only
  when \<open>this.gemini\<close> is not set) and \<open>await this.gemini.streamChat(...)\<close>. A suspended
  call is a \<open>task\<close>: either the trimmed text, waiting for the settings, or the
  placeholder element with the chunks and the outcome that the call of \<open>streamChat\<close> in
  flight is going to deliver. Each part returns the new state, the suspended call if
  there is one, and the requests it has issued.
\<close>

datatype task =
    AwaitSettings jsstring
  | AwaitStream nat "jsstring list" "js_error + jsstring"

text \<open>
  From \<open>this.hideWelcomeMessage()\<close> to the call of \<open>streamChat\<close>:
  \<^verbatim>\<open>
  this.hideWelcomeMessage();
  this.addMessage('user', text);
  this.elements.userInput.value = '';
  this.handleInputChange();
  this.messages.push({ role: 'user', content: text });
  const messageDiv = this.createStreamingMessage();
  this.setLoading(true);
  try {
      let fullResponse = '';
      const messagesWithPrompt = this.systemPrompt
          ? [{ role: 'user', content: `[...] ${this.systemPrompt}` },
             { role: 'assistant', content: '...' }, ...this.messages]
          : this.messages;
      await this.gemini.streamChat(messagesWithPrompt, (chunk) => { ... });
  \<close>
\<close>

definition handleSend_issue ::
  "host \<Rightarrow> (Request \<Rightarrow> js_error + Response) \<Rightarrow> (8 word list \<Rightarrow> jsstring)
     \<Rightarrow> (jsstring \<Rightarrow> GeminiResponse option) \<Rightarrow> jsstring \<Rightarrow> GeminiClient \<Rightarrow> ChatApp
     \<Rightarrow> ChatApp \<times> task option \<times> Request list" where
  "handleSend_issue host fetch decode parse t client a0 =
     (let a1 = hideWelcomeMessage a0;
          a2 = addMessage User t a1;
          a3 = handleInputChange (a2\<lparr>userInput := []\<rparr>);
          a4 = a3\<lparr>messages := messages a3 @ [\<lparr>role = User, content = t\<rparr>]\<rparr>;
          (messageDiv, a5) = createStreamingMessage a4;
          a6 = setLoading True a5;
          messagesWithPrompt =
            (if systemPrompt a6 \<noteq> []
             then [\<lparr>role = User, content = SYSTEM_PREFIX @ systemPrompt a6\<rparr>,
                   \<lparr>role = Assistant, content = ACKNOWLEDGEMENT\<rparr>] @ messages a6
             else messages a6);
          (reqs, delivered, res) = streamChat host client fetch decode parse messagesWithPrompt True
      in (a6, Some (AwaitStream messageDiv delivered res), reqs))"

text \<open>
  The start of \<open>handleSend\<close>:
  \<^verbatim>\<open>
  const text = this.elements.userInput.value.trim();
  if (!text || this.isLoading) return;
  if (!this.gemini) {
      const settings = await storage.getSettings();
      ...
  \<close>
\<close>

definition handleSend ::
  "host \<Rightarrow> (Request \<Rightarrow> js_error + Response) \<Rightarrow> (8 word list \<Rightarrow> jsstring)
     \<Rightarrow> (jsstring \<Rightarrow> GeminiResponse option) \<Rightarrow> ChatApp
     \<Rightarrow> ChatApp \<times> task option \<times> Request list" where
  "handleSend host fetch decode parse a =
     (let t = trim (userInput a) in
      if t = [] \<or> isLoading a then (a, None, [])
      else
        (case gemini a of
           None \<Rightarrow> (a, Some (AwaitSettings t), [])
         | Some client \<Rightarrow> handleSend_issue host fetch decode parse t client a))"

text \<open>
  The resumption with the settings:
  \<^verbatim>\<open>
      if (!settings.apiKey) { this.showError('...'); return; }
      this.gemini = new GeminiClient(settings.apiKey, settings.model);
  }
  \<close>
  The literal shown is the text of \<open>ERROR_MESSAGES.NO_API_KEY\<close>.
\<close>

definition handleSend_settings ::
  "host \<Rightarrow> (Request \<Rightarrow> js_error + Response) \<Rightarrow> (8 word list \<Rightarrow> jsstring)
     \<Rightarrow> (jsstring \<Rightarrow> GeminiResponse option) \<Rightarrow> StorageSettings \<Rightarrow> jsstring \<Rightarrow> ChatApp
     \<Rightarrow> ChatApp \<times> task option \<times> Request list" where
  "handleSend_settings host fetch decode parse settings t a =
     (if settings_apiKey settings = [] then (showError NO_API_KEY a, None, [])
      else
        (let client = new_GeminiClient (settings_apiKey settings) (Some (settings_model settings))
         in handleSend_issue host fetch decode parse t client (a\<lparr>gemini := Some client\<rparr>)))"

text \<open>
  The resumption when \<open>streamChat\<close> settles. The sink and the rest of the \<open>try\<close>:
  \<^verbatim>\<open>
      (chunk) => { fullResponse += chunk; this.updateStreamingMessage(messageDiv, fullResponse); }
      this.finalizeStreamingMessage(messageDiv, fullResponse);
      this.messages.push({ role: 'assistant', content: fullResponse });
  } catch (error) {
      messageDiv.remove();
      this.showError(error instanceof Error ? error.message : '...');
  } finally {
      this.setLoading(false);
  }
  \<close>
  The sink writes only its own \<open>fullResponse\<close> and the placeholder, so its calls are
  applied here in one go.
\<close>

fun error_message :: "js_error \<Rightarrow> jsstring" where
  "error_message (Error m) = m"
| "error_message (TypeError m) = m"
| "error_message (OtherError m) = m"

fun deliver :: "nat \<Rightarrow> jsstring list \<Rightarrow> jsstring \<times> ChatApp \<Rightarrow> jsstring \<times> ChatApp" where
  "deliver d [] acc = acc"
| "deliver d (chunk # chunks) (fullResponse, a) =
     deliver d chunks (fullResponse @ chunk, updateStreamingMessage d (fullResponse @ chunk) a)"

definition handleSend_settled ::
  "nat \<Rightarrow> jsstring list \<Rightarrow> js_error + jsstring \<Rightarrow> ChatApp \<Rightarrow> ChatApp" where
  "handleSend_settled messageDiv delivered res a0 =
     (let (fullResponse, a1) = deliver messageDiv delivered ([], a0);
          a2 = (case res of
                  Inr r \<Rightarrow>
                    (let a = finalizeStreamingMessage messageDiv fullResponse a1
                     in a\<lparr>messages := messages a @ [\<lparr>role = Assistant, content = fullResponse\<rparr>]\<rparr>)
                | Inl e \<Rightarrow> showError (error_message e) (removeElement messageDiv a1))
      in setLoading False a2)"

text \<open>
  A session: the application, the suspended calls of \<open>handleSend\<close> in the order they
  were started, and the requests issued so far. Its events are a send attempt (a click on
  the send button or the Enter key), the settling of the settings read of the \<open>i\<close>-th
  suspended call, and the settling of the \<open>i\<close>-th suspended call's stream. An event that
  names no suspended call of the right kind changes nothing.
\<close>

record session =
  app :: ChatApp
  tasks :: "task list"
  sent :: "Request list"

datatype event = SendAttempt | SettingsResolved nat StorageSettings | StreamSettled nat

definition resume ::
  "nat \<Rightarrow> ChatApp \<times> task option \<times> Request list \<Rightarrow> session \<Rightarrow> session" where
  "resume i r s =
     (case r of (a, t, reqs) \<Rightarrow>
        \<lparr>app = a,
         tasks = take i (tasks s) @ (case t of None \<Rightarrow> [] | Some t' \<Rightarrow> [t']) @ drop (Suc i) (tasks s),
         sent = sent s @ reqs\<rparr>)"

fun step ::
  "host \<Rightarrow> (Request \<Rightarrow> js_error + Response) \<Rightarrow> (8 word list \<Rightarrow> jsstring)
     \<Rightarrow> (jsstring \<Rightarrow> GeminiResponse option) \<Rightarrow> event \<Rightarrow> session \<Rightarrow> session" where
  "step host fetch decode parse SendAttempt s =
     resume (length (tasks s)) (handleSend host fetch decode parse (app s)) s"
| "step host fetch decode parse (SettingsResolved i settings) s =
     (if i < length (tasks s) then
        (case tasks s ! i of
           AwaitSettings t \<Rightarrow>
             resume i (handleSend_settings host fetch decode parse settings t (app s)) s
         | AwaitStream d delivered res \<Rightarrow> s)
      else s)"
| "step host fetch decode parse (StreamSettled i) s =
     (if i < length (tasks s) then
        (case tasks s ! i of
           AwaitSettings t \<Rightarrow> s
         | AwaitStream d delivered res \<Rightarrow>
             resume i (handleSend_settled d delivered res (app s), None, []) s)
      else s)"

fun run ::
  "host \<Rightarrow> (Request \<Rightarrow> js_error + Response) \<Rightarrow> (8 word list \<Rightarrow> jsstring)
     \<Rightarrow> (jsstring \<Rightarrow> GeminiResponse option) \<Rightarrow> event list \<Rightarrow> session \<Rightarrow> session" where
  "run host fetch decode parse [] s = s"
| "run host fetch decode parse (e # es) s = run host fetch decode parse es (step host fetch decode parse e s)"

text \<open>The sends outstanding: the suspended calls whose \<open>streamChat\<close> is in flight.\<close>

fun inFlight :: "task \<Rightarrow> bool" where
  "inFlight (AwaitStream d delivered res) = True"
| "inFlight (AwaitSettings t) = False"

definition outstanding :: "session \<Rightarrow> nat" where
  "outstanding s = length (filter inFlight (tasks s))"

section \<open>Host functions\<close>

text \<open>
  \<open>new TextDecoder().decode(bytes)\<close>: the UTF-8 decoder of the Encoding standard, run on
  the bytes of one call and flushed at their end. A byte that cannot start or continue a
  sequence gives U+FFFD, and so does a sequence that the end of the input cuts short; a
  byte that cannot continue a sequence is then read again as the start of one. A leading
  byte order mark is dropped. The code points are returned as UTF-16 code units.
\<close>

datatype utf8_step = Emit nat | Pending nat nat nat nat | Invalid

definition utf8_lead :: "nat \<Rightarrow> utf8_step" where
  "utf8_lead b =
     (if b \<le> 0x7F then Emit b
      else if 0xC2 \<le> b \<and> b \<le> 0xDF then Pending (b - 0xC0) 1 0x80 0xBF
      else if 0xE0 \<le> b \<and> b \<le> 0xEF then
        Pending (b - 0xE0) 2 (if b = 0xE0 then 0xA0 else 0x80) (if b = 0xED then 0x9F else 0xBF)
      else if 0xF0 \<le> b \<and> b \<le> 0xF4 then
        Pending (b - 0xF0) 3 (if b = 0xF0 then 0x90 else 0x80) (if b = 0xF4 then 0x8F else 0xBF)
      else Invalid)"

text \<open>
  The state is \<open>None\<close> between sequences and otherwise the code point so far, the number
  of bytes still needed and the bounds of the next byte.
\<close>

fun utf8_run :: "(nat \<times> nat \<times> nat \<times> nat) option \<Rightarrow> nat list \<Rightarrow> nat list" where
  "utf8_run None [] = []"
| "utf8_run (Some st) [] = [0xFFFD]"
| "utf8_run None (b # bs) =
     (case utf8_lead b of
        Emit cp \<Rightarrow> cp # utf8_run None bs
      | Pending cp n lo hi \<Rightarrow> utf8_run (Some (cp, n, lo, hi)) bs
      | Invalid \<Rightarrow> 0xFFFD # utf8_run None bs)"
| "utf8_run (Some (cp, n, lo, hi)) (b # bs) =
     (if b < lo \<or> hi < b then 0xFFFD # utf8_run None (b # bs)
      else if n = 1 then (cp * 64 + (b - 0x80)) # utf8_run None bs
      else utf8_run (Some (cp * 64 + (b - 0x80), n - 1, 0x80, 0xBF)) bs)"

definition utf16_units :: "nat \<Rightarrow> jsstring" where
  "utf16_units cp =
     (if cp < 0x10000 then [of_nat cp]
      else [of_nat (0xD800 + (cp - 0x10000) div 0x400),
            of_nat (0xDC00 + (cp - 0x10000) mod 0x400)])"

definition TextDecoder_decode :: "8 word list \<Rightarrow> jsstring" where
  "TextDecoder_decode bytes =
     (let cps = utf8_run None (map unat bytes);
          cps' = (case cps of [] \<Rightarrow> [] | cp # rest \<Rightarrow> if cp = 0xFEFF then rest else cps)
      in concat (map utf16_units cps'))"

text \<open>
  A parser for response fragments of one shape, the compact JSON text of an object with
  one candidate that has one text part, the text being free of quotes, backslashes and
  control characters. On these texts it returns what \<open>JSON.parse\<close> returns; it rejects
  every other text, among them every text that ends inside a string literal. It serves
  to evaluate \<open>streamChat\<close> on concrete streams.
\<close>

definition framePrefix :: jsstring where
  \<open>framePrefix = ascii ''{"candidates":[{"content":{"parts":[{"text":"''\<close>

definition frameSuffix :: jsstring where
  \<open>frameSuffix = ascii ''"}]}}]}''\<close>

definition textFrame :: "jsstring \<Rightarrow> GeminiResponse" where
  "textFrame t =
     \<lparr>candidates =
        Some [\<lparr>c_content = Some \<lparr>c_parts = Some [\<lparr>part_text = t\<rparr>]\<rparr>, finishReason = None\<rparr>],
      error = None\<rparr>"

definition plainChar :: "16 word \<Rightarrow> bool" where
  "plainChar c = (0x20 \<le> c \<and> c \<noteq> 0x22 \<and> c \<noteq> 0x5C)"

definition parseTextFrame :: "jsstring \<Rightarrow> GeminiResponse option" where
  "parseTextFrame s =
     (let n = length s; p = length framePrefix; q = length frameSuffix;
          t = take (n - p - q) (drop p s)
      in if p + q \<le> n \<and> take p s = framePrefix \<and> drop (n - q) s = frameSuffix
            \<and> list_all plainChar t
         then Some (textFrame t) else None)"

section \<open>The frames of a stream\<close>

text \<open>
  The fragments that a stream carries, as the specification describes them: of each
  decoded chunk, the lines that begin with \<open>data: \<close> and whose remainder parses, in
  order. The increment of a fragment is its first candidate's first text part, or the
  empty string.
\<close>

definition framesOfChunk ::
  "(jsstring \<Rightarrow> GeminiResponse option) \<Rightarrow> jsstring \<Rightarrow> GeminiResponse list" where
  "framesOfChunk parse chunk =
     List.map_filter
       (\<lambda>line. if startsWith line (ascii ''data: '') then parse (drop 6 line) else None)
       (split chunk 0x0A)"

definition parsedFrames ::
  "(8 word list \<Rightarrow> jsstring) \<Rightarrow> (jsstring \<Rightarrow> GeminiResponse option) \<Rightarrow> 8 word list list
     \<Rightarrow> GeminiResponse list" where
  "parsedFrames decode parse rs =
     concat (map (\<lambda>bytes. framesOfChunk parse (decode bytes)) rs)"

definition increment :: "GeminiResponse \<Rightarrow> jsstring" where
  "increment data = (case firstText data of None \<Rightarrow> [] | Some t \<Rightarrow> t)"

section \<open>Example data\<close>

text \<open>Concrete clients, histories, responses, streams and stores for the examples below.\<close>

definition asciiBytes :: "string \<Rightarrow> 8 word list" where
  "asciiBytes s = map of_char s"

text \<open>
  The bytes of one server-sent event, a \<open>data: \<close> line with a fragment that carries
  the text whose UTF-8 bytes are \<open>t\<close>, and its newline.
\<close>

definition sseEvent :: "8 word list \<Rightarrow> 8 word list" where
  \<open>sseEvent t =
     asciiBytes ''data: {"candidates":[{"content":{"parts":[{"text":"'' @ t
       @ asciiBytes ''"}]}}]}'' @ [0x0A]\<close>

text \<open>
  The event whose text is the letter e with an acute accent (U+00E9, the bytes C3 A9),
  cut between the two bytes of that letter.
\<close>

definition sseHead :: "8 word list" where
  \<open>sseHead = asciiBytes ''data: {"candidates":[{"content":{"parts":[{"text":"'' @ [0xC3]\<close>

definition sseTail :: "8 word list" where
  \<open>sseTail = [0xA9] @ asciiBytes ''"}]}}]}'' @ [0x0A]\<close>

text \<open>
  An engine that words its \<open>TypeError\<close>s as V8 does, and converts every value to the
  string that a plain object converts to.
\<close>

definition host0 :: host where
  "host0 =
     \<lparr>typeErrorText =
        (\<lambda>f. case f of
               PropertyOfNull object property \<Rightarrow>
                 ascii ''Cannot read properties of null (reading '' @ [0x27] @ property
                   @ [0x27] @ ascii '')''
             | NotAFunction callee \<Rightarrow> callee @ ascii '' is not a function''),
      toString = (\<lambda>v. Inr (ascii ''[object Object]''))\<rparr>"

text \<open>A network that answers every request with status 200 and the given reads.\<close>

definition streamOf :: "8 word list list \<Rightarrow> Request \<Rightarrow> js_error + Response" where
  "streamOf rs req =
     Inr \<lparr>status = 200, json = Inl (TypeError (ascii ''body stream already read'')),
          body = Some \<lparr>reads = rs, failure = None\<rparr>\<rparr>"

text \<open>A network that answers every request with the given status and JSON body.\<close>

definition replyOf :: "nat \<Rightarrow> js_error + GeminiResponse option \<Rightarrow> Request \<Rightarrow> js_error + Response" where
  "replyOf st d req = Inr \<lparr>status = st, json = d, body = None\<rparr>"

definition safetyBlocked :: GeminiResponse where
  "safetyBlocked =
     \<lparr>candidates = Some [\<lparr>c_content = None, finishReason = Some (ascii ''SAFETY'')\<rparr>],
      error = None\<rparr>"

definition errorReply :: "jsval \<Rightarrow> GeminiResponse" where
  "errorReply m = \<lparr>candidates = None, error = Some \<lparr>message = m\<rparr>\<rparr>"

definition client0 :: GeminiClient where
  "client0 = \<lparr>apiKey = ascii ''AIza'' @ replicate 35 0x58, model = ascii ''gemini-2.5-flash''\<rparr>"

definition hello :: "ChatMessage list" where
  "hello = [\<lparr>role = User, content = ascii ''hello''\<rparr>]"

definition history3 :: "ChatMessage list" where
  "history3 =
     [\<lparr>role = User, content = ascii ''hi''\<rparr>, \<lparr>role = Assistant, content = ascii ''yo''\<rparr>,
      \<lparr>role = Model, content = []\<rparr>]"

definition storedBefore :: storage_area where
  "storedBefore =
     fmap_of_list
       [(ascii ''apiKey'', JStr (ascii ''AIza'' @ replicate 35 0x58)),
        (ascii ''model'', JStr (ascii ''gemini-2.0-flash'')),
        (ascii ''systemPrompt'', JStr (ascii ''be terse'')),
        (ascii ''settings'', JObj (fmap_of_list [(ascii ''fontSize'', JNum 12)]))]"

definition partialSettings :: "(jsstring, jsval) fmap" where
  "partialSettings =
     fmap_of_list
       [(ascii ''model'', JStr (ascii ''gemini-2.5-flash'')),
        (ascii ''systemPrompt'', JUndefined),
        (ascii ''theme'', JStr (ascii ''dark''))]"

definition storedOverride :: storage_area where
  "storedOverride =
     fmap_of_list
       [(ascii ''apiKey'', JStr (ascii ''AIza'' @ replicate 35 0x58)),
        (ascii ''settings'',
           JObj (fmap_of_list [(ascii ''apiKey'', JStr (ascii ''other'')),
                               (ascii ''model'', JNull)]))]"

text \<open>
  A session as \<open>init\<close> leaves it when no API key was stored, with \<open>hi\<close> typed into the
  input box, and the settings a later read of the storage gives once a key is saved.
\<close>

definition app0 :: ChatApp where
  "app0 =
     \<lparr>messages = [], gemini = None, isLoading = False, systemPrompt = [],
      userInput = ascii ''hi'', charCount = 2, sendDisabled = False, welcomeHidden = False,
      container = [], nextElement = 0\<rparr>"

definition session0 :: session where
  "session0 = \<lparr>app = app0, tasks = [], sent = []\<rparr>"

definition settings0 :: StorageSettings where
  "settings0 =
     \<lparr>settings_apiKey = ascii ''AIza'' @ replicate 35 0x58,
      settings_model = ascii ''gemini-2.5-flash'', settings_systemPrompt = []\<rparr>"

definition hi :: ChatMessage where
  "hi = \<lparr>role = User, content = ascii ''hi''\<rparr>"

section \<open>Auxiliary notions\<close>

text \<open>
  The history that \<open>handleSend\<close> submits for the text \<open>t\<close> from the state \<open>a\<close>: the
  system prompt pair when a prompt is set, the history so far, and the new user message.
\<close>

definition historyWithPrompt :: "ChatApp \<Rightarrow> jsstring \<Rightarrow> ChatMessage list" where
  "historyWithPrompt a t =
     (if systemPrompt a \<noteq> []
      then [\<lparr>role = User, content = SYSTEM_PREFIX @ systemPrompt a\<rparr>,
            \<lparr>role = Assistant, content = ACKNOWLEDGEMENT\<rparr>]
      else []) @ messages a @ [\<lparr>role = User, content = t\<rparr>]"

text \<open>
  A session whose client is set and in which no call waits for the settings: it has no
  suspended call, or one call in flight with \<open>isLoading\<close> set.
\<close>

definition guarded :: "session \<Rightarrow> bool" where
  "guarded s =
     (gemini (app s) \<noteq> None \<and>
      (tasks s = [] \<or> (\<exists>d del res. tasks s = [AwaitStream d del res] \<and> isLoading (app s))))"

section \<open>Properties of the API key validator\<close>

lemma startsWith_AIza_nonempty:
  "startsWith s (ascii ''AIza'') \<Longrightarrow> s \<noteq> []"
  by (auto simp: startsWith_def ascii_def)

text \<open>
  Claim C9. The validator accepts a value exactly when it is a string that starts with
  the four code units of \<open>AIza\<close> and has at least 35 code units. A 39-character key with
  the prefix is accepted; \<open>abc\<close>, the empty string, \<open>null\<close> and \<open>undefined\<close> are
  rejected; a 34-character key with the prefix is rejected, and one of 35 is accepted.
\<close>

theorem validateApiKeyFormat_iff:
  "(validateApiKeyFormat v \<longleftrightarrow>
      (\<exists>s. v = JStr s \<and> startsWith s (ascii ''AIza'') \<and> 35 \<le> length s))
   \<and> validateApiKeyFormat (JStr (ascii ''AIza'' @ replicate 35 0x58))
   \<and> length (ascii ''AIza'' @ replicate 35 (0x58 :: 16 word)) = 39
   \<and> \<not> validateApiKeyFormat (JStr (ascii ''abc''))
   \<and> \<not> validateApiKeyFormat (JStr [])
   \<and> \<not> validateApiKeyFormat JNull
   \<and> \<not> validateApiKeyFormat JUndefined
   \<and> \<not> validateApiKeyFormat (JStr (ascii ''AIza'' @ replicate 30 0x58))
   \<and> length (ascii ''AIza'' @ replicate 30 (0x58 :: 16 word)) = 34
   \<and> validateApiKeyFormat (JStr (ascii ''AIza'' @ replicate 31 0x58))"
proof -
  have iff: "validateApiKeyFormat v \<longleftrightarrow>
      (\<exists>s. v = JStr s \<and> startsWith s (ascii ''AIza'') \<and> 35 \<le> length s)"
    by (cases v) (auto dest: startsWith_AIza_nonempty)
  have ex: "validateApiKeyFormat (JStr (ascii ''AIza'' @ replicate 35 0x58))"
    "\<not> validateApiKeyFormat (JStr (ascii ''abc''))"
    "\<not> validateApiKeyFormat (JStr (ascii ''AIza'' @ replicate 30 0x58))"
    "validateApiKeyFormat (JStr (ascii ''AIza'' @ replicate 31 0x58))"
    by (simp_all add: startsWith_def ascii_def)
  have len: "length (ascii ''AIza'' @ replicate 35 (0x58 :: 16 word)) = 39"
    "length (ascii ''AIza'' @ replicate 30 (0x58 :: 16 word)) = 34"
    by (simp_all add: ascii_def)
  show ?thesis using iff ex len by simp
qed

section \<open>Properties of the requests\<close>

lemma apiKey_client0: "apiKey client0 \<noteq> []"
  by (simp add: client0_def ascii_def)

lemma chat_requests:
  "fst (chat host c fetch ms) = (if apiKey c = [] then [] else [requestFor (chatUrl c) ms])"
  by (simp add: chat_def Let_def split: sum.splits option.splits)

lemma streamChat_requests:
  "fst (streamChat host c fetch decode parse ms sink) =
     (if apiKey c = [] then [] else [requestFor (streamUrl c) ms])"
  by (simp add: streamChat_def Let_def split: sum.splits option.splits prod.splits)

lemma contents_requestFor: "contents (request_body (requestFor u ms)) = formatMessages ms"
  by (simp add: requestFor_def)

text \<open>
  Claim C4. For every message history, \<open>formatMessages\<close> gives one content block per
  message, in the order of the messages: the block of a \<open>user\<close> message has the role
  \<open>user\<close>, the block of any other message has the role \<open>model\<close>, and its single part holds
  the content of the message unchanged. Every request that \<open>chat\<close> and \<open>streamChat\<close>
  issue carries these blocks as its contents, and with a non-empty key each issues
  exactly one request.
\<close>

theorem formatMessages_roles:
  "length (formatMessages ms) = length ms
   \<and> (\<forall>i < length ms.
         g_role (formatMessages ms ! i) = (if role (ms ! i) = User then GUser else GModel)
       \<and> parts (formatMessages ms ! i) = [\<lparr>part_text = content (ms ! i)\<rparr>])
   \<and> (\<forall>req \<in> set (fst (chat host c fetch ms)). contents (request_body req) = formatMessages ms)
   \<and> (\<forall>req \<in> set (fst (streamChat host c fetch decode parse ms sink)).
         contents (request_body req) = formatMessages ms)
   \<and> (apiKey c \<noteq> [] \<longrightarrow>
         length (fst (chat host c fetch ms)) = 1
       \<and> length (fst (streamChat host c fetch decode parse ms sink)) = 1)"
  by (simp add: chat_requests streamChat_requests contents_requestFor)
     (simp add: formatMessages_def)

text \<open>The theorem at a history of three messages, one of each role.\<close>

theorem formatMessages_roles_witness:
  "length (formatMessages history3) = 3
   \<and> g_role (formatMessages history3 ! 0) = GUser
   \<and> g_role (formatMessages history3 ! 1) = GModel
   \<and> g_role (formatMessages history3 ! 2) = GModel
   \<and> parts (formatMessages history3 ! 1) = [\<lparr>part_text = ascii ''yo''\<rparr>]
   \<and> length (fst (chat host0 client0 (replyOf 200 (Inr (Some safetyBlocked))) history3)) = 1
   \<and> length (fst (streamChat host0 client0 (replyOf 200 (Inr (Some safetyBlocked))) TextDecoder_decode
                  parseTextFrame history3 True)) = 1"
  using formatMessages_roles[where ms = history3 and host = host0 and c = client0
          and fetch = "replyOf 200 (Inr (Some safetyBlocked))"
          and decode = TextDecoder_decode and parse = parseTextFrame and sink = True]
        apiKey_client0
  by (simp add: history3_def)

text \<open>
  Claim C5. On a client whose \<open>apiKey\<close> is empty, \<open>chat\<close> and \<open>streamChat\<close> both fail
  with the error of \<open>ERROR_MESSAGES.NO_API_KEY\<close>, and neither issues a request (nor
  calls the sink).
\<close>

theorem no_api_key_no_request:
  "apiKey c = [] \<Longrightarrow>
     chat host c fetch ms = ([], Inl (Error NO_API_KEY))
   \<and> streamChat host c fetch decode parse ms sink = ([], [], Inl (Error NO_API_KEY))"
  by (simp add: chat_def streamChat_def)

theorem no_api_key_no_request_witness:
  "chat host0 (client0\<lparr>apiKey := []\<rparr>) (streamOf [sseEvent [0xC3, 0xA9]]) hello
     = ([], Inl (Error NO_API_KEY))
   \<and> streamChat host0 (client0\<lparr>apiKey := []\<rparr>) (streamOf [sseEvent [0xC3, 0xA9]]) TextDecoder_decode
        parseTextFrame hello True = ([], [], Inl (Error NO_API_KEY))"
proof -
  have k: "apiKey (client0\<lparr>apiKey := []\<rparr>) = []" by simp
  show ?thesis
    using k no_api_key_no_request[where c = "client0\<lparr>apiKey := []\<rparr>" and host = host0
             and fetch = "streamOf [sseEvent [0xC3, 0xA9]]" and ms = hello
             and decode = TextDecoder_decode and parse = parseTextFrame and sink = True]
    by simp
qed

section \<open>Properties of the responses\<close>

text \<open>
  Claim C6. When the key is set, the response is a 2xx response, its body parses and the
  finish reason of its first candidate is \<open>SAFETY\<close>, \<open>chat\<close> returns the fixed reply;
  it does not fail.
\<close>

theorem chat_safety_block:
  assumes "apiKey c \<noteq> []"
      and "fetch (requestFor (chatUrl c) ms) = Inr response"
      and "ok response"
      and "json response = Inr (Some data)"
      and "candidates data = Some (c0 # cs)"
      and "finishReason c0 = Some (ascii ''SAFETY'')"
  shows "snd (chat host c fetch ms) = Inr SAFETY_REPLY"
  using assms by (simp add: chat_def Let_def firstCandidate_def)

theorem chat_safety_block_witness:
  "snd (chat host0 client0 (replyOf 200 (Inr (Some safetyBlocked))) hello) = Inr SAFETY_REPLY"
proof -
  have 1: "replyOf 200 (Inr (Some safetyBlocked)) (requestFor (chatUrl client0) hello)
             = Inr \<lparr>status = 200, json = Inr (Some safetyBlocked), body = None\<rparr>"
    by (simp add: replyOf_def)
  have 2: "ok \<lparr>status = 200, json = Inr (Some safetyBlocked), body = None\<rparr>"
    by (simp add: ok_def)
  have 3: "json \<lparr>status = 200, json = Inr (Some safetyBlocked), body = None\<rparr> = Inr (Some safetyBlocked)"
    by simp
  have 4: "candidates safetyBlocked
             = Some (\<lparr>c_content = None, finishReason = Some (ascii ''SAFETY'')\<rparr> # [])"
    by (simp add: safetyBlocked_def)
  have 5: "finishReason \<lparr>c_content = None, finishReason = Some (ascii ''SAFETY'')\<rparr>
             = Some (ascii ''SAFETY'')"
    by simp
  show ?thesis
    by (rule chat_safety_block[where c = client0 and host = host0
               and fetch = "replyOf 200 (Inr (Some safetyBlocked))" and ms = hello,
               OF apiKey_client0 1 2 3 4 5])
qed

text \<open>A response that is not a 2xx response makes both calls fail with what
  \<open>handleApiError\<close> throws.\<close>

lemma chat_not_ok:
  "apiKey c \<noteq> [] \<Longrightarrow> fetch (requestFor (chatUrl c) ms) = Inr response \<Longrightarrow> \<not> ok response
   \<Longrightarrow> snd (chat host c fetch ms) = Inl (handleApiError host response)"
  by (simp add: chat_def Let_def)

lemma streamChat_not_ok:
  "apiKey c \<noteq> [] \<Longrightarrow> fetch (requestFor (streamUrl c) ms) = Inr response \<Longrightarrow> \<not> ok response
   \<Longrightarrow> snd (snd (streamChat host c fetch decode parse ms sink)) = Inl (handleApiError host response)"
  by (simp add: streamChat_def Let_def)

lemma unknown_error_no_key: "\<not> includes_js (ascii ''Unknown error'') (ascii ''API key'')"
  by (simp add: ascii_def startsWith_def)

text \<open>
  A body that parses to \<open>null\<close> makes \<open>handleApiError\<close> throw the engine's \<open>TypeError\<close>
  for the read of \<open>errorData.error\<close>, whatever the status. With status 400, so does an
  error message that is truthy and neither a string nor an array, for the call of
  \<open>message.includes\<close>.
\<close>

lemma handleApiError_null:
  "json response = Inr None \<Longrightarrow>
     handleApiError host response
       = TypeError (typeErrorText host (PropertyOfNull (ascii ''errorData'') (ascii ''error'')))"
  by (simp add: handleApiError_def)

lemma handleApiError_not_a_function:
  assumes "status response = 400"
      and "json response = Inr (Some d)"
      and "truthy (errorMessage d)"
      and "\<And>m. errorMessage d \<noteq> JStr m"
      and "\<And>xs. errorMessage d \<noteq> JArr xs"
  shows "handleApiError host response
           = TypeError (typeErrorText host (NotAFunction (ascii ''message.includes'')))"
  using assms
  by (cases "errorMessage d")
     (auto simp: handleApiError_def message_includes_def orElse_def Let_def)

text \<open>
  Both at concrete responses: the body \<open>null\<close> with the statuses 429, 503 and 404, and
  the error message \<open>5\<close> with status 400. With status 404, an error message that is an
  object gives an error whose message is the object converted to a string.
\<close>

lemma handleApiError_type_errors:
  "handleApiError host0 \<lparr>status = 429, json = Inr None, body = None\<rparr>
     = TypeError (ascii ''Cannot read properties of null (reading '' @ [0x27] @ ascii ''error''
                    @ [0x27] @ ascii '')'')
   \<and> handleApiError host0 \<lparr>status = 503, json = Inr None, body = None\<rparr>
     = TypeError (ascii ''Cannot read properties of null (reading '' @ [0x27] @ ascii ''error''
                    @ [0x27] @ ascii '')'')
   \<and> handleApiError host0 \<lparr>status = 404, json = Inr None, body = None\<rparr>
     = TypeError (ascii ''Cannot read properties of null (reading '' @ [0x27] @ ascii ''error''
                    @ [0x27] @ ascii '')'')
   \<and> handleApiError host0 \<lparr>status = 400, json = Inr (Some (errorReply (JNum 5))), body = None\<rparr>
     = TypeError (ascii ''message.includes is not a function'')
   \<and> handleApiError host0
         \<lparr>status = 404, json = Inr (Some (errorReply (JObj fmempty))), body = None\<rparr>
     = Error (ascii ''[object Object]'')"
  by (simp add: handleApiError_def host0_def errorReply_def errorMessage_def orElse_def
        message_includes_def new_Error_def Let_def)
     (simp add: ascii_def)

text \<open>
  Claim C3, as stated, fails in its last case. For a response with status 404 whose body
  does not parse, \<open>handleApiError\<close> throws an error with the English literal
  \<open>Unknown error\<close>, which is not the message of \<open>ERROR_MESSAGES.UNKNOWN_ERROR\<close>.
\<close>

theorem handleApiError_unparsed_counterexample:
  "handleApiError host0
       \<lparr>status = 404, json = Inl (OtherError (ascii ''Unexpected token'')), body = None\<rparr>
     = Error (ascii ''Unknown error'')
   \<and> Error (ascii ''Unknown error'') \<noteq> Error UNKNOWN_ERROR"
  by (simp add: handleApiError_def errorMessage_def orElse_def new_Error_def Let_def)
     (simp add: ascii_def UNKNOWN_ERROR_def)

text \<open>
  Claim C3, amended. Take a response whose body does not parse to \<open>null\<close>.
  \<open>handleApiError\<close> fails with the rate-limit error for status 429 and with the API
  error for a status of 500 or more. It fails with the invalid-key error for status 400
  with an error message that is a string and contains \<open>API key\<close>. With a status that is
  neither 429 nor 500 or more, it fails with the error message when that is a non-empty
  string (and the case of the invalid key does not apply), with the literal
  \<open>Unknown error\<close> when the body does not parse, and with the unknown-error message when
  the body holds no error message, or holds one that is the empty string, \<open>null\<close>,
  \<open>false\<close> or zero.
\<close>

theorem handleApiError_table:
  "(status response = 400 \<and> json response = Inr (Some d) \<and> error d = Some e
        \<and> message e = JStr m \<and> includes_js m (ascii ''API key'')
      \<longrightarrow> handleApiError host response = Error INVALID_API_KEY)
   \<and> (status response = 429 \<and> json response \<noteq> Inr None
      \<longrightarrow> handleApiError host response = Error RATE_LIMIT)
   \<and> (status response \<ge> 500 \<and> json response \<noteq> Inr None
      \<longrightarrow> handleApiError host response = Error API_ERROR)
   \<and> (status response \<noteq> 429 \<and> status response < 500 \<and> json response = Inr (Some d)
        \<and> error d = Some e \<and> message e = JStr m \<and> m \<noteq> []
        \<and> \<not> (status response = 400 \<and> includes_js m (ascii ''API key''))
      \<longrightarrow> handleApiError host response = Error m)
   \<and> (status response \<noteq> 429 \<and> status response < 500 \<and> json response = Inl err
      \<longrightarrow> handleApiError host response = Error (ascii ''Unknown error''))
   \<and> (status response \<noteq> 429 \<and> status response < 500 \<and> json response = Inr (Some d)
        \<and> \<not> truthy (errorMessage d)
      \<longrightarrow> handleApiError host response = Error UNKNOWN_ERROR)"
proof -
  have 1: "status response = 400 \<and> json response = Inr (Some d) \<and> error d = Some e
        \<and> message e = JStr m \<and> includes_js m (ascii ''API key'')
      \<longrightarrow> handleApiError host response = Error INVALID_API_KEY"
    by (auto simp: handleApiError_def errorMessage_def message_includes_def orElse_def Let_def)
  have 2: "status response = 429 \<and> json response \<noteq> Inr None
      \<longrightarrow> handleApiError host response = Error RATE_LIMIT"
    by (auto simp: handleApiError_def Let_def split: sum.splits option.splits)
  have 3: "status response \<ge> 500 \<and> json response \<noteq> Inr None
      \<longrightarrow> handleApiError host response = Error API_ERROR"
    by (auto simp: handleApiError_def Let_def split: sum.splits option.splits)
  have 4: "status response \<noteq> 429 \<and> status response < 500 \<and> json response = Inr (Some d)
        \<and> error d = Some e \<and> message e = JStr m \<and> m \<noteq> []
        \<and> \<not> (status response = 400 \<and> includes_js m (ascii ''API key''))
      \<longrightarrow> handleApiError host response = Error m"
    by (auto simp: handleApiError_def errorMessage_def message_includes_def orElse_def
          new_Error_def Let_def)
  have 5: "status response \<noteq> 429 \<and> status response < 500 \<and> json response = Inl err
      \<longrightarrow> handleApiError host response = Error (ascii ''Unknown error'')"
    by (auto simp: handleApiError_def errorMessage_def message_includes_def orElse_def
          new_Error_def unknown_error_no_key Let_def)
       (simp_all add: ascii_def)
  have 6: "status response \<noteq> 429 \<and> status response < 500 \<and> json response = Inr (Some d)
        \<and> \<not> truthy (errorMessage d)
      \<longrightarrow> handleApiError host response = Error UNKNOWN_ERROR"
    by (auto simp: handleApiError_def message_includes_def orElse_def new_Error_def Let_def)
       (simp_all add: ascii_def)
  from 1 2 3 4 5 6 show ?thesis by blast
qed

text \<open>One response for each line of the table.\<close>

theorem handleApiError_table_witness:
  "handleApiError host0
       \<lparr>status = 400, json = Inr (Some (errorReply (JStr (ascii ''API key not valid'')))),
        body = None\<rparr> = Error INVALID_API_KEY
   \<and> handleApiError host0 \<lparr>status = 429, json = Inr (Some (errorReply JUndefined)), body = None\<rparr>
       = Error RATE_LIMIT
   \<and> handleApiError host0 \<lparr>status = 503, json = Inr (Some (errorReply JUndefined)), body = None\<rparr>
       = Error API_ERROR
   \<and> handleApiError host0
         \<lparr>status = 404, json = Inr (Some (errorReply (JStr (ascii ''Not found'')))), body = None\<rparr>
       = Error (ascii ''Not found'')
   \<and> handleApiError host0
         \<lparr>status = 404, json = Inl (OtherError (ascii ''Unexpected token'')), body = None\<rparr>
       = Error (ascii ''Unknown error'')
   \<and> handleApiError host0 \<lparr>status = 404, json = Inr (Some (errorReply JUndefined)), body = None\<rparr>
       = Error UNKNOWN_ERROR"
proof -
  have k: "includes_js (ascii ''API key not valid'') (ascii ''API key'')"
    by (simp add: ascii_def startsWith_def)
  have n: "ascii ''Not found'' \<noteq> []"
    by (simp add: ascii_def)
  show ?thesis
    using
      handleApiError_table[where host = host0 and response = "\<lparr>status = 400,
          json = Inr (Some (errorReply (JStr (ascii ''API key not valid'')))), body = None\<rparr>"
          and d = "errorReply (JStr (ascii ''API key not valid''))"
          and e = "\<lparr>message = JStr (ascii ''API key not valid'')\<rparr>"
          and m = "ascii ''API key not valid''"]
      handleApiError_table[where host = host0 and response =
          "\<lparr>status = 429, json = Inr (Some (errorReply JUndefined)), body = None\<rparr>"]
      handleApiError_table[where host = host0 and response =
          "\<lparr>status = 503, json = Inr (Some (errorReply JUndefined)), body = None\<rparr>"]
      handleApiError_table[where host = host0 and response = "\<lparr>status = 404,
          json = Inr (Some (errorReply (JStr (ascii ''Not found'')))), body = None\<rparr>"
          and d = "errorReply (JStr (ascii ''Not found''))"
          and e = "\<lparr>message = JStr (ascii ''Not found'')\<rparr>"
          and m = "ascii ''Not found''"]
      handleApiError_table[where host = host0 and response = "\<lparr>status = 404,
          json = Inl (OtherError (ascii ''Unexpected token'')), body = None\<rparr>"
          and err = "OtherError (ascii ''Unexpected token'')"]
      handleApiError_table[where host = host0 and response =
          "\<lparr>status = 404, json = Inr (Some (errorReply JUndefined)), body = None\<rparr>"
          and d = "errorReply JUndefined"]
      k n
    by (simp add: errorReply_def errorMessage_def)
qed

section \<open>Properties of the stream reader\<close>

lemma split_nonempty: "split s sep \<noteq> []"
  by (induction s) (auto split: list.splits)

lemma split_append_sep_gen: "split (l @ sep # r) sep = split l sep @ split r sep"
proof (induction l)
  case Nil
  show ?case by simp
next
  case (Cons c l)
  obtain x xs where x: "split l sep = x # xs"
    using split_nonempty[of l sep] by (cases "split l sep") auto
  show ?case using Cons x by simp
qed

lemma split_no_sep: "sep \<notin> set l \<Longrightarrow> split l sep = [l]"
  by (induction l) auto

lemma split_append_sep: "sep \<notin> set l \<Longrightarrow> split (l @ sep # r) sep = l # split r sep"
  by (simp add: split_append_sep_gen split_no_sep)

lemma length_data_prefix: "length (ascii ''data: '') = 6"
  by (simp add: ascii_def)

lemma not_startsWith_Nil: "\<not> startsWith [] (ascii ''data: '')"
  by (simp add: startsWith_def ascii_def)

lemma startsWith_append: "startsWith (p @ s) p"
  by (simp add: startsWith_def)

lemma map_filter_append:
  "List.map_filter f (xs @ ys) = List.map_filter f xs @ List.map_filter f ys"
  by (simp add: List.map_filter_def)

lemma orEmpty_increment: "orEmpty (firstText d) = increment d"
  by (simp add: orEmpty_def increment_def split: option.splits)

text \<open>The inner loop appends the increments of the fragments of its lines.\<close>

lemma processLines_sink:
  "processLines parse True ls (full, del) =
     (full @ concat (map increment (List.map_filter
         (\<lambda>line. if startsWith line (ascii ''data: '') then parse (drop 6 line) else None) ls)),
      del @ map increment (List.map_filter
         (\<lambda>line. if startsWith line (ascii ''data: '') then parse (drop 6 line) else None) ls))"
  by (induction ls arbitrary: full del)
     (simp_all add: List.map_filter_simps orEmpty_increment Let_def split: option.splits)

lemma processLines_no_sink:
  "processLines parse False ls (full, del) =
     (full @ concat (map increment (List.map_filter
         (\<lambda>line. if startsWith line (ascii ''data: '') then parse (drop 6 line) else None) ls)),
      del)"
  by (induction ls arbitrary: full del)
     (simp_all add: List.map_filter_simps orEmpty_increment Let_def split: option.splits)

lemma processLines_frames:
  "processLines parse b (split chunk 0x0A) (full, del) =
     (full @ concat (map increment (framesOfChunk parse chunk)),
      if b then del @ map increment (framesOfChunk parse chunk) else del)"
  by (cases b)
     (simp_all only: processLines_sink processLines_no_sink framesOfChunk_def if_True if_False)

lemma readLoop_frames:
  "readLoop decode parse b rs (full, del) =
     (full @ concat (map increment (parsedFrames decode parse rs)),
      if b then del @ map increment (parsedFrames decode parse rs) else del)"
proof (induction rs arbitrary: full del)
  case Nil
  show ?case by (simp add: parsedFrames_def)
next
  case (Cons r rs)
  show ?case
    by (simp add: processLines_frames Cons.IH parsedFrames_def)
qed

text \<open>
  A stream that ends without a failure makes \<open>streamChat\<close> return: the result is the
  concatenation of the increments, whether a sink is given or not.
\<close>

lemma streamChat_frames:
  assumes "apiKey c \<noteq> []"
      and "fetch (requestFor (streamUrl c) ms) = Inr response"
      and "ok response"
      and "body response = Some reader"
      and "failure reader = None"
  shows "streamChat host c fetch decode parse ms b =
           ([requestFor (streamUrl c) ms],
            if b then map increment (parsedFrames decode parse (reads reader)) else [],
            Inr (concat (map increment (parsedFrames decode parse (reads reader)))))"
  using assms by (simp add: streamChat_def Let_def readLoop_frames)

lemma streamChat_streamOf:
  "streamChat host client0 (streamOf rs) decode parse ms b =
     ([requestFor (streamUrl client0) ms],
      if b then map increment (parsedFrames decode parse rs) else [],
      Inr (concat (map increment (parsedFrames decode parse rs))))"
  by (simp add: streamChat_frames[where response =
        "\<lparr>status = 200, json = Inl (TypeError (ascii ''body stream already read'')),
          body = Some \<lparr>reads = rs, failure = None\<rparr>\<rparr>" and reader = "\<lparr>reads = rs, failure = None\<rparr>"]
      apiKey_client0 streamOf_def ok_def)

text \<open>
  Claim C1. Whenever \<open>streamChat\<close>, called with a sink, returns a text, the chunks it
  passed to the sink are, in order, the increments of the fragments parsed from the
  stream (one call per fragment, with the first candidate's first text part or the empty
  string), and their concatenation is the returned text. And it does return, with these
  chunks, when the key is set, the response is a 2xx response with a body, and the
  stream ends without a failure.
\<close>

theorem streamChat_chunks_concat:
  "(streamChat host c fetch decode parse ms True = (reqs, delivered, Inr full) \<longrightarrow>
      concat delivered = full \<and>
      (\<exists>response reader.
          fetch (requestFor (streamUrl c) ms) = Inr response \<and>
          body response = Some reader \<and>
          delivered = map increment (parsedFrames decode parse (reads reader))))
   \<and> (apiKey c \<noteq> [] \<and> fetch (requestFor (streamUrl c) ms) = Inr response' \<and> ok response'
        \<and> body response' = Some reader' \<and> failure reader' = None \<longrightarrow>
      streamChat host c fetch decode parse ms True =
        ([requestFor (streamUrl c) ms],
         map increment (parsedFrames decode parse (reads reader')),
         Inr (concat (map increment (parsedFrames decode parse (reads reader'))))))"
proof -
  have "concat delivered = full \<and>
      (\<exists>response reader.
          fetch (requestFor (streamUrl c) ms) = Inr response \<and>
          body response = Some reader \<and>
          delivered = map increment (parsedFrames decode parse (reads reader)))"
    if "streamChat host c fetch decode parse ms True = (reqs, delivered, Inr full)"
    using that
    by (auto simp: streamChat_def Let_def readLoop_frames
             split: if_splits sum.splits option.splits prod.splits)
  then show ?thesis
    by (simp add: streamChat_frames)
qed

lemma parseTextFrame_frame:
  "list_all plainChar t \<Longrightarrow> parseTextFrame (framePrefix @ t @ frameSuffix) = Some (textFrame t)"
  by (simp add: parseTextFrame_def Let_def)

lemma increment_textFrame: "increment (textFrame t) = t"
  by (simp add: increment_def textFrame_def firstText_def firstCandidate_def)

text \<open>
  The fragments of single lines, for any parser: a \<open>data: \<close> line gives the fragment its
  payload parses to, if it parses, whether the chunk ends after the line's newline or
  inside the line; a line without the prefix gives none.
\<close>

lemma data_line_no_newline: "0x0A \<notin> set (ascii ''data: '')"
  by (simp add: ascii_def)

lemma framesOfChunk_open_line:
  assumes "0x0A \<notin> set payload"
  shows "framesOfChunk parse (ascii ''data: '' @ payload)
           = (case parse payload of None \<Rightarrow> [] | Some d \<Rightarrow> [d])"
proof -
  have nl: "0x0A \<notin> set (ascii ''data: '' @ payload)"
    using assms data_line_no_newline by simp
  show ?thesis
    unfolding framesOfChunk_def split_no_sep[OF nl]
    by (simp add: List.map_filter_simps length_data_prefix startsWith_append split: option.splits)
qed

lemma framesOfChunk_line:
  assumes "0x0A \<notin> set payload"
  shows "framesOfChunk parse (ascii ''data: '' @ payload @ [0x0A])
           = (case parse payload of None \<Rightarrow> [] | Some d \<Rightarrow> [d])"
proof -
  let ?l = "ascii ''data: '' @ payload"
  have nl: "0x0A \<notin> set ?l"
    using assms data_line_no_newline by simp
  have sp: "split (?l @ [0x0A]) 0x0A = [?l, []]"
    using split_append_sep[OF nl, of "[]"] by simp
  have "framesOfChunk parse (?l @ [0x0A])
          = (case parse payload of None \<Rightarrow> [] | Some d \<Rightarrow> [d])"
    unfolding framesOfChunk_def sp
    by (simp add: List.map_filter_simps length_data_prefix not_startsWith_Nil startsWith_append
             split: option.splits)
  then show ?thesis by simp
qed

lemma framesOfChunk_other_line:
  assumes "0x0A \<notin> set l" and "\<not> startsWith l (ascii ''data: '')"
  shows "framesOfChunk parse (l @ [0x0A]) = []"
proof -
  have sp: "split (l @ [0x0A]) 0x0A = [l, []]"
    using split_append_sep[OF assms(1), of "[]"] by simp
  show ?thesis
    unfolding framesOfChunk_def sp
    using assms(2) by (simp add: List.map_filter_simps not_startsWith_Nil)
qed

lemma framesOfChunk_one:
  assumes "list_all plainChar t" "0x0A \<notin> set t"
  shows "framesOfChunk parseTextFrame (ascii ''data: '' @ framePrefix @ t @ frameSuffix @ [0x0A])
           = [textFrame t]"
proof -
  have nl: "0x0A \<notin> set (framePrefix @ t @ frameSuffix)"
    using assms(2) by (simp add: ascii_def framePrefix_def frameSuffix_def)
  show ?thesis
    using framesOfChunk_line[OF nl, of parseTextFrame]
    by (simp add: parseTextFrame_frame[OF assms(1)])
qed

lemma decode_event_Hel:
  "TextDecoder_decode (sseEvent (asciiBytes ''Hel''))
     = ascii ''data: '' @ framePrefix @ ascii ''Hel'' @ frameSuffix @ [0x0A]"
  by (simp add: TextDecoder_decode_def sseEvent_def asciiBytes_def utf8_lead_def utf16_units_def
      ascii_def framePrefix_def frameSuffix_def)

lemma decode_event_lo:
  "TextDecoder_decode (sseEvent (asciiBytes ''lo''))
     = ascii ''data: '' @ framePrefix @ ascii ''lo'' @ frameSuffix @ [0x0A]"
  by (simp add: TextDecoder_decode_def sseEvent_def asciiBytes_def utf8_lead_def utf16_units_def
      ascii_def framePrefix_def frameSuffix_def)

lemma frames_Hel_lo:
  "parsedFrames TextDecoder_decode parseTextFrame
      [sseEvent (asciiBytes ''Hel''), sseEvent (asciiBytes ''lo'')]
     = [textFrame (ascii ''Hel''), textFrame (ascii ''lo'')]"
proof -
  have 1: "framesOfChunk parseTextFrame
             (ascii ''data: '' @ framePrefix @ ascii ''Hel'' @ frameSuffix @ [0x0A])
           = [textFrame (ascii ''Hel'')]"
    by (rule framesOfChunk_one) (simp_all add: ascii_def plainChar_def)
  have 2: "framesOfChunk parseTextFrame
             (ascii ''data: '' @ framePrefix @ ascii ''lo'' @ frameSuffix @ [0x0A])
           = [textFrame (ascii ''lo'')]"
    by (rule framesOfChunk_one) (simp_all add: ascii_def plainChar_def)
  show ?thesis
    unfolding parsedFrames_def
    by (simp only: list.map decode_event_Hel decode_event_lo 1 2 concat.simps append.simps)
qed

lemma stream_Hel_lo:
  "streamChat host client0 (streamOf [sseEvent (asciiBytes ''Hel''), sseEvent (asciiBytes ''lo'')])
      TextDecoder_decode parseTextFrame hello True
     = ([requestFor (streamUrl client0) hello], [ascii ''Hel'', ascii ''lo''], Inr (ascii ''Hello''))"
  by (simp add: streamChat_streamOf frames_Hel_lo increment_textFrame) (simp add: ascii_def)

text \<open>A stream of two events, read one event at a time: the sink gets two chunks.\<close>

theorem streamChat_chunks_concat_witness:
  "streamChat host0 client0 (streamOf [sseEvent (asciiBytes ''Hel''), sseEvent (asciiBytes ''lo'')])
      TextDecoder_decode parseTextFrame hello True
     = ([requestFor (streamUrl client0) hello], [ascii ''Hel'', ascii ''lo''], Inr (ascii ''Hello''))
   \<and> concat [ascii ''Hel'', ascii ''lo''] = ascii ''Hello''
   \<and> (\<exists>response reader.
        streamOf [sseEvent (asciiBytes ''Hel''), sseEvent (asciiBytes ''lo'')]
          (requestFor (streamUrl client0) hello) = Inr response \<and>
        body response = Some reader \<and>
        [ascii ''Hel'', ascii ''lo''] =
          map increment (parsedFrames TextDecoder_decode parseTextFrame (reads reader)))"
  using stream_Hel_lo
    streamChat_chunks_concat[where host = host0 and c = client0
      and fetch = "streamOf [sseEvent (asciiBytes ''Hel''), sseEvent (asciiBytes ''lo'')]"
      and decode = TextDecoder_decode and parse = parseTextFrame and ms = hello
      and reqs = "[requestFor (streamUrl client0) hello]"
      and delivered = "[ascii ''Hel'', ascii ''lo'']" and full = "ascii ''Hello''"]
  by blast

section \<open>Read boundaries\<close>

text \<open>
  Two reads give what one read of their concatenation gives when the first read ends
  with a newline and the decoder sees whole characters on both sides: the lines of the
  two chunks are then the lines of the whole.
\<close>

lemma framesOfChunk_append_line:
  "framesOfChunk parse ((l @ [0x0A]) @ r) = framesOfChunk parse (l @ [0x0A]) @ framesOfChunk parse r"
proof -
  have a: "split ((l @ [0x0A]) @ r) 0x0A = split l 0x0A @ split r 0x0A"
    using split_append_sep_gen[of l "0x0A" r] by simp
  have b: "split (l @ [0x0A]) 0x0A = split l 0x0A @ [[]]"
    using split_append_sep_gen[of l "0x0A" "[]"] by simp
  show ?thesis
    unfolding framesOfChunk_def a b
    by (simp add: map_filter_append List.map_filter_simps not_startsWith_Nil)
qed

lemma parsedFrames_split_at_line_end:
  assumes "decode (a @ b) = decode a @ decode b"
      and "decode a = l @ [0x0A]"
  shows "parsedFrames decode parse (pre @ [a, b] @ post)
           = parsedFrames decode parse (pre @ [a @ b] @ post)"
  using framesOfChunk_append_line[of parse l "decode b"] assms
  by (simp add: parsedFrames_def)

lemma handleApiError_body:
  "handleApiError host (response\<lparr>body := b\<rparr>) = handleApiError host response"
  by (simp add: handleApiError_def Let_def split: option.splits sum.splits)

lemma streamChat_split_at_line_end:
  assumes "decode (a @ b) = decode a @ decode b"
      and "decode a = l @ [0x0A]"
  shows "streamChat host c
           (\<lambda>req. Inr (response\<lparr>body := Some \<lparr>reads = pre @ [a, b] @ post, failure = f\<rparr>\<rparr>))
           decode parse ms sink
       = streamChat host c
           (\<lambda>req. Inr (response\<lparr>body := Some \<lparr>reads = pre @ [a @ b] @ post, failure = f\<rparr>\<rparr>))
           decode parse ms sink"
  using parsedFrames_split_at_line_end[OF assms, of parse pre post]
  by (simp add: streamChat_def Let_def readLoop_frames handleApiError_body ok_def
           split: option.splits)

text \<open>The event with the accented letter, read whole and read in two parts.\<close>

lemma sseHead_sseTail: "sseHead @ sseTail = sseEvent [0xC3, 0xA9]"
  by (simp add: sseHead_def sseTail_def sseEvent_def)

lemma decode_event_e_acute:
  "TextDecoder_decode (sseEvent [0xC3, 0xA9])
     = ascii ''data: '' @ framePrefix @ [0xE9] @ frameSuffix @ [0x0A]"
  by (simp add: TextDecoder_decode_def sseEvent_def asciiBytes_def utf8_lead_def utf16_units_def
      ascii_def framePrefix_def frameSuffix_def)

lemma decode_sseHead:
  "TextDecoder_decode sseHead = ascii ''data: '' @ framePrefix @ [0xFFFD]"
  by (simp add: TextDecoder_decode_def sseHead_def asciiBytes_def utf8_lead_def utf16_units_def
      ascii_def framePrefix_def)

lemma decode_sseTail:
  "TextDecoder_decode sseTail = 0xFFFD # frameSuffix @ [0x0A]"
  by (simp add: TextDecoder_decode_def sseTail_def asciiBytes_def utf8_lead_def utf16_units_def
      ascii_def frameSuffix_def)

text \<open>
  For any parser that accepts the whole payload and rejects the payload cut inside its
  string literal (as \<open>JSON.parse\<close> does), the single read carries one fragment and the
  two reads carry none: the first chunk ends in an unfinished line, the second starts
  with a line that lacks the prefix.
\<close>

lemma split_read_frames:
  assumes "parse (framePrefix @ [0xE9] @ frameSuffix) = Some d"
      and "parse (framePrefix @ [0xFFFD]) = None"
  shows "parsedFrames TextDecoder_decode parse [sseHead @ sseTail] = [d]
       \<and> parsedFrames TextDecoder_decode parse [sseHead, sseTail] = []"
proof -
  have 1: "framesOfChunk parse
             (ascii ''data: '' @ (framePrefix @ [0xE9] @ frameSuffix) @ [0x0A]) = [d]"
  proof -
    have nl: "0x0A \<notin> set (framePrefix @ [0xE9] @ frameSuffix)"
      by (simp add: framePrefix_def frameSuffix_def ascii_def)
    show ?thesis
      using framesOfChunk_line[OF nl, of parse]
      by (simp only: assms(1) option.case)
  qed
  have 2: "framesOfChunk parse (ascii ''data: '' @ (framePrefix @ [0xFFFD])) = []"
  proof -
    have nl: "0x0A \<notin> set (framePrefix @ [0xFFFD])"
      by (simp add: framePrefix_def ascii_def)
    show ?thesis
      using framesOfChunk_open_line[OF nl, of parse]
      by (simp only: assms(2) option.case)
  qed
  have ns: "\<not> startsWith (0xFFFD # frameSuffix) (ascii ''data: '')"
    by (simp add: startsWith_def ascii_def)
  have 3: "framesOfChunk parse ((0xFFFD # frameSuffix) @ [0x0A]) = []"
    by (rule framesOfChunk_other_line[OF _ ns]) (simp add: frameSuffix_def ascii_def)
  show ?thesis
    unfolding parsedFrames_def sseHead_sseTail
    using 1 2 3 by (simp add: decode_event_e_acute decode_sseHead decode_sseTail)
qed

lemma parseTextFrame_whole:
  "parseTextFrame (framePrefix @ [0xE9] @ frameSuffix) = Some (textFrame [0xE9])"
  by (rule parseTextFrame_frame) (simp add: plainChar_def)

lemma parseTextFrame_cut: "parseTextFrame (framePrefix @ [0xFFFD]) = None"
  by (simp add: parseTextFrame_def Let_def framePrefix_def frameSuffix_def ascii_def)

text \<open>
  Claim C2 does not hold of \<open>streamChat\<close>. The event stream with one fragment whose text
  is the letter U+00E9 gives that letter when it arrives in one read; cut between the two
  bytes of the letter and delivered in two reads, it gives the empty text and no call of
  the sink. Each read is decoded alone: the two decoded chunks, put together, are not
  the decoded whole (each holds U+FFFD where the letter was cut), and the line that the
  cut divides parses in neither chunk.
\<close>

theorem streamChat_split_read_differs:
  "streamChat host client0 (streamOf [sseHead @ sseTail]) TextDecoder_decode parseTextFrame hello True
     = ([requestFor (streamUrl client0) hello], [[0xE9]], Inr [0xE9])
   \<and> streamChat host client0 (streamOf [sseHead, sseTail]) TextDecoder_decode parseTextFrame hello True
     = ([requestFor (streamUrl client0) hello], [], Inr [])
   \<and> TextDecoder_decode sseHead @ TextDecoder_decode sseTail
       \<noteq> TextDecoder_decode (sseHead @ sseTail)"
proof -
  have 1: "streamChat host client0 (streamOf [sseHead @ sseTail]) TextDecoder_decode parseTextFrame
             hello True
     = ([requestFor (streamUrl client0) hello], [[0xE9]], Inr [0xE9])"
    by (simp add: streamChat_streamOf increment_textFrame
          split_read_frames[OF parseTextFrame_whole parseTextFrame_cut])
  have 2: "streamChat host client0 (streamOf [sseHead, sseTail]) TextDecoder_decode parseTextFrame
             hello True
     = ([requestFor (streamUrl client0) hello], [], Inr [])"
    by (simp add: streamChat_streamOf
          split_read_frames[OF parseTextFrame_whole parseTextFrame_cut])
  have 3: "TextDecoder_decode sseHead @ TextDecoder_decode sseTail
       \<noteq> TextDecoder_decode (sseHead @ sseTail)"
    unfolding sseHead_sseTail decode_sseHead decode_sseTail decode_event_e_acute
    by (simp add: ascii_def framePrefix_def frameSuffix_def)
  show ?thesis using 1 2 3 by blast
qed

section \<open>Properties of the settings store\<close>

lemma storage_keys_distinct:
  "ascii ''apiKey'' \<noteq> ascii ''model''" "ascii ''apiKey'' \<noteq> ascii ''systemPrompt''"
  "ascii ''apiKey'' \<noteq> ascii ''settings''" "ascii ''model'' \<noteq> ascii ''systemPrompt''"
  "ascii ''model'' \<noteq> ascii ''settings''" "ascii ''systemPrompt'' \<noteq> ascii ''settings''"
  by (simp_all add: ascii_def)

lemmas storage_keys =
  STORAGE_KEYS_API_KEY_def STORAGE_KEYS_MODEL_def STORAGE_KEYS_SYSTEM_PROMPT_def
  STORAGE_KEYS_SETTINGS_def

lemma fmlookup_otherSettings:
  "fmlookup (otherSettings settings) k =
     (if k \<in> {ascii ''apiKey'', ascii ''model'', ascii ''systemPrompt''} then None
      else fmlookup settings k)"
  by (simp add: otherSettings_def)

lemma fmlookup_toSave:
  "fmlookup (toSave settings) k =
     (if k = ascii ''settings'' then
        (if otherSettings settings \<noteq> fmempty then Some (JObj (otherSettings settings)) else None)
      else if k \<in> {ascii ''apiKey'', ascii ''model'', ascii ''systemPrompt''} then
        (if get_prop settings k \<noteq> JUndefined then Some (get_prop settings k) else None)
      else None)"
  using storage_keys_distinct
  by (auto simp: toSave_def Let_def storage_keys)

text \<open>
  Claim C7. After \<open>saveSettings\<close>, each of the keys \<open>apiKey\<close>, \<open>model\<close> and
  \<open>systemPrompt\<close> holds the value given in the input when the input has a defined value
  for it, and is as it was before when the input has none (the property is absent or
  \<open>undefined\<close>). The other fields of the input, when there are any, are stored together
  as the object under the key \<open>settings\<close>, which takes the place of the object stored
  there; when there are none, that key is as it was. No other key of the storage
  changes.
\<close>

theorem saveSettings_writes_present_keys:
  "(\<forall>k \<in> {ascii ''apiKey'', ascii ''model'', ascii ''systemPrompt''}.
       fmlookup (saveSettings settings store) k =
         (if get_prop settings k \<noteq> JUndefined then Some (get_prop settings k)
          else fmlookup store k))
   \<and> fmlookup (saveSettings settings store) (ascii ''settings'') =
         (if otherSettings settings \<noteq> fmempty then Some (JObj (otherSettings settings))
          else fmlookup store (ascii ''settings''))
   \<and> (\<forall>k. k \<notin> {ascii ''apiKey'', ascii ''model'', ascii ''systemPrompt'', ascii ''settings''}
         \<longrightarrow> fmlookup (saveSettings settings store) k = fmlookup store k)
   \<and> (\<forall>k. fmlookup (otherSettings settings) k =
         (if k \<in> {ascii ''apiKey'', ascii ''model'', ascii ''systemPrompt''} then None
          else fmlookup settings k))"
  using storage_keys_distinct
  by (auto simp: saveSettings_def storage_local_set_def fmlookup_toSave fmlookup_otherSettings
           fmlookup_dom_iff)

lemma get_prop_partialSettings:
  "get_prop partialSettings (ascii ''apiKey'') = JUndefined"
  "get_prop partialSettings (ascii ''model'') = JStr (ascii ''gemini-2.5-flash'')"
  "get_prop partialSettings (ascii ''systemPrompt'') = JUndefined"
  using storage_keys_distinct
  by (simp_all add: get_prop_def partialSettings_def) (simp_all add: ascii_def)

lemma otherSettings_partialSettings:
  "otherSettings partialSettings = fmap_of_list [(ascii ''theme'', JStr (ascii ''dark''))]"
proof (rule fmap_ext)
  fix k
  show "fmlookup (otherSettings partialSettings) k
          = fmlookup (fmap_of_list [(ascii ''theme'', JStr (ascii ''dark''))]) k"
    by (auto simp: fmlookup_otherSettings partialSettings_def ascii_def)
qed

text \<open>
  Saving a model, an undefined system prompt and a theme over a full store: the key and
  the prompt stay, the model changes, and the blob becomes the theme alone.
\<close>

theorem saveSettings_writes_present_keys_witness:
  "fmlookup (saveSettings partialSettings storedBefore) (ascii ''apiKey'')
     = Some (JStr (ascii ''AIza'' @ replicate 35 0x58))
   \<and> fmlookup (saveSettings partialSettings storedBefore) (ascii ''model'')
     = Some (JStr (ascii ''gemini-2.5-flash''))
   \<and> fmlookup (saveSettings partialSettings storedBefore) (ascii ''systemPrompt'')
     = Some (JStr (ascii ''be terse''))
   \<and> fmlookup (saveSettings partialSettings storedBefore) (ascii ''settings'')
     = Some (JObj (fmap_of_list [(ascii ''theme'', JStr (ascii ''dark''))]))
   \<and> fmlookup (saveSettings partialSettings storedBefore) (ascii ''other'') = None"
proof -
  note t = saveSettings_writes_present_keys[of partialSettings storedBefore]
  have before:
    "fmlookup storedBefore (ascii ''apiKey'') = Some (JStr (ascii ''AIza'' @ replicate 35 0x58))"
    "fmlookup storedBefore (ascii ''systemPrompt'') = Some (JStr (ascii ''be terse''))"
    "fmlookup storedBefore (ascii ''other'') = None"
    by (simp_all add: storedBefore_def) (simp_all add: ascii_def)
  have other:
    "ascii ''other'' \<notin> {ascii ''apiKey'', ascii ''model'', ascii ''systemPrompt'', ascii ''settings''}"
    by (simp add: ascii_def)
  have ne: "fmap_of_list [(ascii ''theme'', JStr (ascii ''dark''))] \<noteq> fmempty"
    by simp
  show ?thesis
    using t other ne
    by (simp add: get_prop_partialSettings otherSettings_partialSettings before)
qed

lemma fmlookup_storage_local_get:
  "fmlookup (storage_local_get
       [ascii ''apiKey'', ascii ''model'', ascii ''systemPrompt'', ascii ''settings'']
       store) k =
     (if k \<in> {ascii ''apiKey'', ascii ''model'', ascii ''systemPrompt'', ascii ''settings''}
      then fmlookup store k else None)"
  by (auto simp: storage_local_get_def)

lemma get_prop_storage_local_get:
  "k \<in> {ascii ''apiKey'', ascii ''model'', ascii ''systemPrompt'', ascii ''settings''} \<Longrightarrow>
   get_prop (storage_local_get
       [ascii ''apiKey'', ascii ''model'', ascii ''systemPrompt'', ascii ''settings'']
       store) k = get_prop store k"
  by (simp add: get_prop_def fmlookup_storage_local_get)

text \<open>
  Claim C10. When the stored blob is an object that has one of the keys \<open>apiKey\<close>,
  \<open>model\<close> and \<open>systemPrompt\<close>, \<open>getSettings\<close> returns the blob's value for that key,
  whatever is stored under the key itself; only when the blob lacks the key is the
  result the stored value or, that being falsy or absent, the default.
\<close>

theorem getSettings_blob_overrides:
  assumes "fmlookup store (ascii ''settings'') = Some (JObj blob)"
      and "k \<in> {ascii ''apiKey'', ascii ''model'', ascii ''systemPrompt''}"
  shows "(fmlookup blob k = Some v \<longrightarrow> get_prop (getSettings store) k = v)
       \<and> (fmlookup blob k = None \<longrightarrow>
           get_prop (getSettings store) k =
             orElse (get_prop store k)
               (if k = ascii ''model'' then JStr (ascii ''gemini-2.5-flash'') else JStr []))"
proof -
  have blob: "get_prop (storage_local_get
       [ascii ''apiKey'', ascii ''model'', ascii ''systemPrompt'', ascii ''settings'']
       store) (ascii ''settings'') = JObj blob"
    using assms(1) by (simp add: get_prop_def fmlookup_storage_local_get)
  have typed: "get_prop (storage_local_get
       [ascii ''apiKey'', ascii ''model'', ascii ''systemPrompt'', ascii ''settings'']
       store) j = get_prop store j"
    if "j \<in> {ascii ''apiKey'', ascii ''model'', ascii ''systemPrompt''}" for j
    using that by (intro get_prop_storage_local_get) auto
  show ?thesis
    using assms(2) storage_keys_distinct
    unfolding getSettings_def Let_def storage_keys blob
    by (auto simp: typed fmlookup_dom_iff get_prop_def[of "fmupd _ _ _ ++\<^sub>f _"])
qed

text \<open>
  A store with a valid key under \<open>apiKey\<close> and a blob that holds another \<open>apiKey\<close> and a
  \<open>null\<close> model: the settings carry the blob's key and the \<open>null\<close>.
\<close>

theorem getSettings_blob_overrides_witness:
  "get_prop (getSettings storedOverride) (ascii ''apiKey'') = JStr (ascii ''other'')
   \<and> get_prop (getSettings storedOverride) (ascii ''model'') = JNull
   \<and> get_prop (getSettings storedOverride) (ascii ''systemPrompt'') = JStr []"
proof -
  let ?blob = "fmap_of_list [(ascii ''apiKey'', JStr (ascii ''other'')), (ascii ''model'', JNull)]"
  have s: "fmlookup storedOverride (ascii ''settings'') = Some (JObj ?blob)"
    by (simp add: storedOverride_def) (simp add: ascii_def)
  have b: "fmlookup ?blob (ascii ''apiKey'') = Some (JStr (ascii ''other''))"
          "fmlookup ?blob (ascii ''model'') = Some JNull"
          "fmlookup ?blob (ascii ''systemPrompt'') = None"
    by (simp_all add: ascii_def)
  have p: "get_prop storedOverride (ascii ''systemPrompt'') = JUndefined"
    by (simp add: storedOverride_def get_prop_def) (simp add: ascii_def)
  have m: "ascii ''systemPrompt'' \<noteq> ascii ''model''"
    by (simp add: ascii_def)
  show ?thesis
    using getSettings_blob_overrides[OF s, of "ascii ''apiKey''" "JStr (ascii ''other'')"]
          getSettings_blob_overrides[OF s, of "ascii ''model''" JNull]
          getSettings_blob_overrides[OF s, of "ascii ''systemPrompt''"]
          b p m
    by (simp add: orElse_def)
qed

section \<open>Properties of the chat session\<close>

text \<open>The trimmed text is empty exactly when the text consists of white space.\<close>

lemma trim_empty_iff: "trim s = [] \<longleftrightarrow> (\<forall>c \<in> set s. isWhiteSpace c)"
proof
  assume "trim s = []"
  then have all: "\<forall>c \<in> set (dropWhile isWhiteSpace s). isWhiteSpace c"
    by (simp add: trim_def)
  have "dropWhile isWhiteSpace s = []"
  proof (rule ccontr)
    assume ne: "dropWhile isWhiteSpace s \<noteq> []"
    then have "\<not> isWhiteSpace (hd (dropWhile isWhiteSpace s))"
      by (rule hd_dropWhile)
    moreover have "hd (dropWhile isWhiteSpace s) \<in> set (dropWhile isWhiteSpace s)"
      using ne by (rule hd_in_set)
    ultimately show False using all by blast
  qed
  then show "\<forall>c \<in> set s. isWhiteSpace c"
    by (simp only: dropWhile_eq_Nil_conv)
next
  assume "\<forall>c \<in> set s. isWhiteSpace c"
  then show "trim s = []"
    by (auto simp: trim_def dest: set_dropWhileD)
qed

text \<open>
  The guard: with an empty or white-space text, or with \<open>isLoading\<close> set, \<open>handleSend\<close>
  returns at once. The state is unchanged, no call is suspended and no request is issued.
\<close>

lemma handleSend_ignored:
  "trim (userInput a) = [] \<or> isLoading a \<Longrightarrow> handleSend host fetch decode parse a = (a, None, [])"
  by (auto simp: handleSend_def Let_def)

lemma step_SendAttempt_ignored:
  "trim (userInput (app s)) = [] \<or> isLoading (app s) \<Longrightarrow>
     step host fetch decode parse SendAttempt s = s"
  by (simp add: handleSend_ignored resume_def)

text \<open>
  Past the guard and the settings, \<open>handleSend\<close> appends the user message, sets
  \<open>isLoading\<close> and has \<open>streamChat\<close> issue its request.
\<close>

lemma handleSend_issue_result:
  "\<exists>a' d del res.
      handleSend_issue host fetch decode parse t client a
        = (a', Some (AwaitStream d del res),
           if apiKey client = [] then []
           else [requestFor (streamUrl client) (historyWithPrompt a t)])
      \<and> isLoading a' \<and> gemini a' = gemini a \<and> systemPrompt a' = systemPrompt a
      \<and> messages a' = messages a @ [\<lparr>role = User, content = t\<rparr>]
      \<and> userInput a' = []"
  by (simp add: handleSend_issue_def Let_def split_beta streamChat_requests
        historyWithPrompt_def createStreamingMessage_def setLoading_def appendElement_def
        handleInputChange_def addMessage_def hideWelcomeMessage_def)

lemma handleSend_settings_issue:
  "settings_apiKey settings \<noteq> [] \<Longrightarrow>
   \<exists>a' d del res.
      handleSend_settings host fetch decode parse settings t a
        = (a', Some (AwaitStream d del res),
           [requestFor
              (streamUrl \<lparr>apiKey = settings_apiKey settings, model = settings_model settings\<rparr>)
              (historyWithPrompt a t)])
      \<and> isLoading a' \<and> systemPrompt a' = systemPrompt a
      \<and> messages a' = messages a @ [\<lparr>role = User, content = t\<rparr>]"
  using handleSend_issue_result[of host fetch decode parse t
      "\<lparr>apiKey = settings_apiKey settings, model = settings_model settings\<rparr>"
      "a\<lparr>gemini := Some \<lparr>apiKey = settings_apiKey settings, model = settings_model settings\<rparr>\<rparr>"]
  by (auto simp: handleSend_settings_def Let_def new_GeminiClient_def historyWithPrompt_def)

lemma gemini_handleSend_settled:
  "gemini (handleSend_settled d del res a) = gemini a"
proof -
  have "gemini (snd (deliver d del (f, a))) = gemini a" for f
    by (induction del arbitrary: f a) (simp_all add: updateStreamingMessage_def)
  then show ?thesis
    by (simp add: handleSend_settled_def split_beta Let_def setLoading_def showError_def
        appendElement_def removeElement_def finalizeStreamingMessage_def split: sum.splits)
qed

text \<open>
  Once the client is set, the guard does what it is there for: from a session whose
  client is set and in which no call waits for the settings, no sequence of events leads
  to a state with more than one send outstanding.
\<close>

lemma guarded_step: "guarded s \<Longrightarrow> guarded (step host fetch decode parse e s)"
proof (cases e)
  case SendAttempt
  assume g: "guarded s"
  then obtain client where cl: "gemini (app s) = Some client"
    by (auto simp: guarded_def)
  show ?thesis
  proof (cases "trim (userInput (app s)) = [] \<or> isLoading (app s)")
    case True
    show ?thesis
      unfolding SendAttempt step_SendAttempt_ignored[OF True] by (rule g)
  next
    case False
    then have t: "tasks s = []" using g by (auto simp: guarded_def)
    obtain a' d del res reqs where
      "handleSend_issue host fetch decode parse (trim (userInput (app s))) client (app s)
         = (a', Some (AwaitStream d del res), reqs)" "isLoading a'" "gemini a' = gemini (app s)"
      using handleSend_issue_result[of host fetch decode parse "trim (userInput (app s))" client "app s"]
      by blast
    then show ?thesis
      using False cl t SendAttempt
      by (simp add: guarded_def handleSend_def Let_def resume_def)
  qed
next
  case (SettingsResolved i settings)
  assume "guarded s"
  then show ?thesis
    using SettingsResolved by (auto simp: guarded_def)
next
  case (StreamSettled i)
  assume "guarded s"
  then show ?thesis
    using StreamSettled
    by (auto simp: guarded_def resume_def gemini_handleSend_settled)
qed

lemma guarded_run: "guarded s \<Longrightarrow> guarded (run host fetch decode parse es s)"
  by (induction es arbitrary: s) (simp_all add: guarded_step)

lemma guarded_outstanding: "guarded s \<Longrightarrow> outstanding (run host fetch decode parse es s) \<le> 1"
  using guarded_run[of s host fetch decode parse es]
  by (auto simp: guarded_def outstanding_def)

lemma trim_hi: "trim (ascii ''hi'') = ascii ''hi''"
  by (simp add: trim_def ascii_def isWhiteSpace_def)

text \<open>
  Claim C8 does not hold of \<open>handleSend\<close> in a session whose client is not set.
  \<open>isLoading\<close> is set only after \<open>await storage.getSettings()\<close>, so two send attempts made
  before the settings arrive both pass the guard. When the settings (with a key) arrive
  for the first, it issues its request and sets \<open>isLoading\<close>; when they arrive for the
  second, it goes on without testing \<open>isLoading\<close> again and issues a second request while
  the first is outstanding, after appending the user message a second time.
\<close>

theorem two_sends_outstanding:
  "outstanding (run host fetch decode parse
       [SendAttempt, SendAttempt, SettingsResolved 0 settings0] session0) = 1
   \<and> isLoading (app (run host fetch decode parse
       [SendAttempt, SendAttempt, SettingsResolved 0 settings0] session0))
   \<and> outstanding (run host fetch decode parse
       [SendAttempt, SendAttempt, SettingsResolved 0 settings0, SettingsResolved 1 settings0]
       session0) = 2
   \<and> sent (run host fetch decode parse
       [SendAttempt, SendAttempt, SettingsResolved 0 settings0, SettingsResolved 1 settings0]
       session0)
     = [requestFor (streamUrl client0) [hi], requestFor (streamUrl client0) [hi, hi]]
   \<and> messages (app (run host fetch decode parse
       [SendAttempt, SendAttempt, SettingsResolved 0 settings0, SettingsResolved 1 settings0]
       session0)) = [hi, hi]"
proof -
  have k: "settings_apiKey settings0 \<noteq> []"
    by (simp add: settings0_def ascii_def)
  have c: "\<lparr>apiKey = settings_apiKey settings0, model = settings_model settings0\<rparr> = client0"
    by (simp add: settings0_def client0_def)
  have s1: "handleSend host fetch decode parse app0 = (app0, Some (AwaitSettings (ascii ''hi'')), [])"
    by (simp add: handleSend_def Let_def app0_def trim_hi) (simp add: ascii_def)
  have r2: "run host fetch decode parse [SendAttempt, SendAttempt] session0
      = \<lparr>app = app0, tasks = [AwaitSettings (ascii ''hi''), AwaitSettings (ascii ''hi'')],
         sent = []\<rparr>"
    by (simp add: session0_def s1 resume_def)
  obtain a3 d3 del3 res3 where
    h3: "handleSend_settings host fetch decode parse settings0 (ascii ''hi'') app0
          = (a3, Some (AwaitStream d3 del3 res3),
             [requestFor (streamUrl client0) (historyWithPrompt app0 (ascii ''hi''))])"
    and l3: "isLoading a3" and p3: "systemPrompt a3 = systemPrompt app0"
    and m3: "messages a3 = messages app0 @ [\<lparr>role = User, content = ascii ''hi''\<rparr>]"
    using handleSend_settings_issue[OF k, of host fetch decode parse "ascii ''hi''" app0]
    unfolding c by blast
  have w3: "historyWithPrompt app0 (ascii ''hi'') = [hi]"
    by (simp add: historyWithPrompt_def app0_def hi_def)
  have r3: "run host fetch decode parse [SendAttempt, SendAttempt, SettingsResolved 0 settings0] session0
      = \<lparr>app = a3, tasks = [AwaitStream d3 del3 res3, AwaitSettings (ascii ''hi'')],
         sent = [requestFor (streamUrl client0) [hi]]\<rparr>"
    using r2 by (simp add: session0_def s1 resume_def h3 w3)
  obtain a4 d4 del4 res4 where
    h4: "handleSend_settings host fetch decode parse settings0 (ascii ''hi'') a3
          = (a4, Some (AwaitStream d4 del4 res4),
             [requestFor (streamUrl client0) (historyWithPrompt a3 (ascii ''hi''))])"
    and l4: "isLoading a4"
    and m4: "messages a4 = messages a3 @ [\<lparr>role = User, content = ascii ''hi''\<rparr>]"
    using handleSend_settings_issue[OF k, of host fetch decode parse "ascii ''hi''" a3]
    unfolding c by blast
  have w4: "historyWithPrompt a3 (ascii ''hi'') = [hi, hi]"
    by (simp add: historyWithPrompt_def p3 m3 app0_def hi_def)
  have r4: "run host fetch decode parse
       [SendAttempt, SendAttempt, SettingsResolved 0 settings0, SettingsResolved 1 settings0]
       session0
      = \<lparr>app = a4, tasks = [AwaitStream d3 del3 res3, AwaitStream d4 del4 res4],
         sent = [requestFor (streamUrl client0) [hi], requestFor (streamUrl client0) [hi, hi]]\<rparr>"
    using r3 by (simp add: session0_def s1 resume_def h3 w3 h4 w4)
  show ?thesis
    unfolding r3 r4 by (simp add: outstanding_def l3 m4 m3 app0_def hi_def)
qed

end
